theory Spec2Isabelle
  imports Complex_Main "HOL-Library.Multiset" "HOL-Library.Log_Nat"
begin

section \<open>A blogging API: credential check, role gates and resource handlers\<close>

text \<open>
  The development embeds the request handlers of \<^verbatim>\<open>server/middleware/auth.js\<close>,
  \<^verbatim>\<open>server/routes/posts.js\<close> and \<^verbatim>\<open>server/routes/comments.js\<close> together with the
  schemas of \<^verbatim>\<open>server/models/Post.js\<close> and \<^verbatim>\<open>server/models/Comment.js\<close>.

  Conventions of the embedding:
  \<^item> a collection is the list of its documents in insertion order;
  \<^item> a handler takes the store and returns its HTTP reply with the store it leaves;
  \<^item> an error reply (\<^verbatim>\<open>res.status(n).json({success: false, ...})\<close>) is the left
    injection of a sum, a success reply the right one;
  \<^item> values that come from collaborators outside the handlers (the token library, the
    cast of a string to a document key, the text index, the cursor of the database)
    are fields of an environment record, so every theorem holds for each of them;
  \<^item> a string is a list of code units below 256, and a field of a request body is
    either absent or a string (a list of strings for \<^verbatim>\<open>tags\<close>);
  \<^item> the messages of a validation error form a bag: the order in which the object
    mapper lists them is not part of the embedding.
\<close>

subsection \<open>Strings\<close>

text \<open>White space as \<^verbatim>\<open>String.prototype.trim\<close>, \<^verbatim>\<open>parseInt\<close> and \<^verbatim>\<open>Number\<close> see it,
  among the code units below 256: tab, line feed, vertical tab, form feed, carriage
  return, space and the no-break space (160). The other white space characters of the
  language lie above 255.\<close>

definition is_ws :: "char \<Rightarrow> bool" where
  "is_ws c = (let n = (of_char c :: nat) in n = 32 \<or> (9 \<le> n \<and> n \<le> 13) \<or> n = 160)"

definition trim_start :: "string \<Rightarrow> string" where
  "trim_start s = dropWhile is_ws s"

definition trim :: "string \<Rightarrow> string" where
  "trim s = rev (dropWhile is_ws (rev (dropWhile is_ws s)))"

text \<open>\<^verbatim>\<open>s.replace(pat, rep)\<close> with a string pattern: the first occurrence only.\<close>

fun replace_first :: "string \<Rightarrow> string \<Rightarrow> string \<Rightarrow> string" where
  "replace_first pat rep [] = (if pat = [] then rep else [])"
| "replace_first pat rep (c # cs) =
     (if take (length pat) (c # cs) = pat then rep @ drop (length pat) (c # cs)
      else c # replace_first pat rep cs)"

subsection \<open>Documents and the store\<close>

type_synonym oid = string

text \<open>Modelled from the spec: the user model (\<^verbatim>\<open>models/User.js\<close>) is not among the
  sources; the spec gives a user a username, an email, a hashed password credential and
  a role. After \<^verbatim>\<open>.select('-password')\<close> the password field is absent, hence the option.\<close>

record user_doc =
  user_id :: oid
  username :: string
  email :: string
  password :: "string option"
  role :: string

record post_doc =
  post_id :: oid
  title :: string
  body :: string
  author :: oid
  tags :: "string list"
  category :: string
  views :: int
  createdAt :: nat
  updatedAt :: nat

record comment_doc =
  comment_id :: oid
  postID :: oid
  userID :: oid
  comment :: string
  c_createdAt :: nat
  c_updatedAt :: nat

record store =
  users :: "user_doc list"
  posts :: "post_doc list"
  comments :: "comment_doc list"

text \<open>A number of the language is a double: not-a-number, the infinities, negative
  zero, and the finite values, given here by the rational they denote. \<open>to_double\<close>
  rounds a rational to the nearest double, ties to the even significand: the result
  has a significand of at most 53 bits and an exponent of at least \<open>-1074\<close>, a value
  of \<open>2 ^ 1024\<close> or more after rounding is an infinity, and a value that rounds to
  zero keeps its sign.\<close>

datatype jsnum = NaN | PosInf | NegInf | NegZero | Num rat

definition round_even :: "rat \<Rightarrow> int" where
  "round_even x =
     (let f = \<lfloor>x\<rfloor>; r = x - of_int f
      in if r < 1 / 2 then f else if 1 / 2 < r then f + 1 else if even f then f else f + 1)"

text \<open>For \<open>x > 0\<close>, the exponent \<open>e\<close> with \<open>2 ^ 52 \<le> x / 2 powi e < 2 ^ 53\<close>.\<close>

definition exponent :: "rat \<Rightarrow> int" where
  "exponent x =
     (let e0 = bitlen (fst (quotient_of x)) - bitlen (snd (quotient_of x)) - 53
      in if x / 2 powi e0 < 2 ^ 53 then e0 else e0 + 1)"

definition to_double :: "rat \<Rightarrow> jsnum" where
  "to_double x =
     (if x = 0 then Num 0
      else
        (let a = \<bar>x\<bar>;
             e = max (exponent a) (- 1074);
             m = round_even (a / 2 powi e);
             v = of_int m * 2 powi e
         in if 2 ^ 1024 \<le> v then (if x < 0 then NegInf else PosInf)
            else if m = 0 then (if x < 0 then NegZero else Num 0)
            else Num (if x < 0 then - v else v)))"

text \<open>The collaborators of the handlers. \<open>jwt_verify\<close> is \<^verbatim>\<open>jwt.verify(token, secret)\<close>
  followed by \<^verbatim>\<open>.id\<close>: \<open>None\<close> when it throws. \<open>castObjectId\<close> is the cast of a string
  to a document key: \<open>None\<close> is the \<^verbatim>\<open>CastError\<close>. \<open>text_match\<close> is the text index.
  \<open>cursor\<close> is the cursor of a find: the documents that match, the sort field and
  direction, the limit and the number to skip give the page, or \<open>None\<close> when the
  database rejects the call. \<open>populate_fails\<close> tells for which key the query behind
  \<^verbatim>\<open>populate\<close> is rejected.\<close>

record env =
  jwt_verify :: "string \<Rightarrow> string option"
  castObjectId :: "string \<Rightarrow> oid option"
  text_match :: "string \<Rightarrow> post_doc \<Rightarrow> bool"
  cursor :: "post_doc list \<Rightarrow> string \<Rightarrow> int \<Rightarrow> jsnum \<Rightarrow> jsnum \<Rightarrow> post_doc list option"
  populate_fails :: "oid \<Rightarrow> bool"

datatype failure = Failure (status: nat) (message: string) (errors: "string multiset option")

datatype db_error = CastError | ValidationError "string multiset" | DuplicateKey | DbFailure

definition User_findById :: "env \<Rightarrow> store \<Rightarrow> string \<Rightarrow> db_error + user_doc option" where
  "User_findById e st i =
     (case castObjectId e i of
        None \<Rightarrow> Inl CastError
      | Some k \<Rightarrow> Inr (find (\<lambda>u. user_id u = k) (users st)))"

definition Post_findById :: "env \<Rightarrow> store \<Rightarrow> string \<Rightarrow> db_error + post_doc option" where
  "Post_findById e st i =
     (case castObjectId e i of
        None \<Rightarrow> Inl CastError
      | Some k \<Rightarrow> Inr (find (\<lambda>p. post_id p = k) (posts st)))"

definition Comment_findById :: "env \<Rightarrow> store \<Rightarrow> string \<Rightarrow> db_error + comment_doc option" where
  "Comment_findById e st i =
     (case castObjectId e i of
        None \<Rightarrow> Inl CastError
      | Some k \<Rightarrow> Inr (find (\<lambda>c. comment_id c = k) (comments st)))"

subsection \<open>The credential check and the role gates (\<^verbatim>\<open>middleware/auth.js\<close>)\<close>

text \<open>\<open>auth\<close> reads the \<^verbatim>\<open>Authorization\<close> header (\<open>None\<close> when the request has none).
  Every exception inside its \<^verbatim>\<open>try\<close> ends in the same reply.\<close>

definition auth :: "env \<Rightarrow> store \<Rightarrow> string option \<Rightarrow> failure + user_doc" where
  "auth e st hdr =
     (case map_option (replace_first ''Bearer '' '''') hdr of
        None \<Rightarrow> Inl (Failure 401 ''No token provided, authorization denied'' None)
      | Some token \<Rightarrow>
          if token = [] then Inl (Failure 401 ''No token provided, authorization denied'' None)
          else
            (case jwt_verify e token of
               None \<Rightarrow> Inl (Failure 401 ''Token is not valid'' None)
             | Some decoded_id \<Rightarrow>
                 (case User_findById e st decoded_id of
                    Inl err \<Rightarrow> Inl (Failure 401 ''Token is not valid'' None)
                  | Inr None \<Rightarrow> Inl (Failure 401 ''Token is not valid'' None)
                  | Inr (Some user) \<Rightarrow> Inr (user\<lparr>password := None\<rparr>))))"

definition adminAuth :: "user_doc \<Rightarrow> failure + unit" where
  "adminAuth user =
     (if role user \<noteq> ''Admin'' then Inl (Failure 403 ''Admin access required'' None)
      else Inr ())"

definition editorAuth :: "user_doc \<Rightarrow> failure + unit" where
  "editorAuth user =
     (if role user \<noteq> ''Admin'' \<and> role user \<noteq> ''Editor''
      then Inl (Failure 403 ''Editor or Admin access required'' None)
      else Inr ())"

subsection \<open>The schemas (\<^verbatim>\<open>models/Post.js\<close>, \<^verbatim>\<open>models/Comment.js\<close>)\<close>

text \<open>A validation error carries one entry for each path that fails, with the message
  of the first validator of that path that fails (\<^verbatim>\<open>required\<close> comes first). The
  validators see the value after the setters of the schema (\<^verbatim>\<open>trim\<close>) have run. Each
  element of \<^verbatim>\<open>tags\<close> is a path of its own. The validators below list the entries of
  one field; the store operations collect the messages into a bag.\<close>

datatype path = P_title | P_body | P_tags nat | P_category | P_comment

definition validate_title :: "string option \<Rightarrow> (path \<times> string) list" where
  "validate_title v =
     (case v of
        None \<Rightarrow> [(P_title, ''Title is required'')]
      | Some t \<Rightarrow>
          if t = [] then [(P_title, ''Title is required'')]
          else if length t > 200 then [(P_title, ''Title cannot exceed 200 characters'')]
          else [])"

definition validate_body :: "string option \<Rightarrow> (path \<times> string) list" where
  "validate_body v =
     (case v of
        None \<Rightarrow> [(P_body, ''Body content is required'')]
      | Some b \<Rightarrow>
          if b = [] then [(P_body, ''Body content is required'')]
          else if length b < 10 then [(P_body, ''Body must be at least 10 characters long'')]
          else [])"

definition validate_tag :: "nat \<times> string \<Rightarrow> (path \<times> string) list" where
  "validate_tag it =
     (if length (snd it) > 50 then [(P_tags (fst it), ''Tag cannot exceed 50 characters'')]
      else [])"

definition validate_tags :: "string list \<Rightarrow> (path \<times> string) list" where
  "validate_tags ts = concat (map validate_tag (enumerate 0 ts))"

definition categories :: "string list" where
  "categories =
     [''General'', ''Technology'', ''Development'', ''Design'', ''Business'', ''Lifestyle'']"

definition validate_category :: "string \<Rightarrow> (path \<times> string) list" where
  "validate_category c =
     (if c \<in> set categories then []
      else [(P_category, ''`'' @ c @ ''` is not a valid enum value for path `category`.'')])"

definition validate_comment :: "string option \<Rightarrow> (path \<times> string) list" where
  "validate_comment v =
     (case v of
        None \<Rightarrow> [(P_comment, ''Comment content is required'')]
      | Some c \<Rightarrow>
          if c = [] then [(P_comment, ''Comment content is required'')]
          else if length c < 1 then [(P_comment, ''Comment cannot be empty'')]
          else if length c > 1000 then [(P_comment, ''Comment cannot exceed 1000 characters'')]
          else [])"

subsection \<open>The operations of the store on posts\<close>

text \<open>\<^verbatim>\<open>new Post({...})\<close> followed by \<^verbatim>\<open>save()\<close>: the setters run, the document is
  validated, and it is inserted with \<^verbatim>\<open>views\<close> 0 and both timestamps. \<open>new_id\<close> is the
  key that \<^verbatim>\<open>new Post\<close> generates; a key already in the collection is the duplicate-key
  error of the database.\<close>

definition Post_save ::
  "store \<Rightarrow> oid \<Rightarrow> nat \<Rightarrow> string option \<Rightarrow> string option \<Rightarrow> oid \<Rightarrow> string list \<Rightarrow> string
     \<Rightarrow> (db_error + post_doc) \<times> store" where
  "Post_save st new_id now ttl bdy athr tgs cat =
     (let t = map_option trim ttl;
          ts = map trim tgs;
          errs = validate_title t @ validate_body bdy @ validate_tags ts @ validate_category cat
      in case (errs, t, bdy) of
           ([], Some t', Some b') \<Rightarrow>
             if new_id \<in> set (map post_id (posts st)) then (Inl DuplicateKey, st)
             else
               (let doc = \<lparr>post_id = new_id, title = t', body = b', author = athr, tags = ts,
                            category = cat, views = 0, createdAt = now, updatedAt = now\<rparr>
                in (Inr doc, st\<lparr>posts := posts st @ [doc]\<rparr>))
         | _ \<Rightarrow> (Inl (ValidationError (mset (map snd errs))), st))"

text \<open>An update document: the store accepts a \<^verbatim>\<open>$set\<close> of any field and a \<^verbatim>\<open>$inc\<close>
  of the view counter. A key whose value is \<^verbatim>\<open>undefined\<close> is not part of the update
  document (the object mapper drops it, from its version 6 on), so it has no operator
  here. The update validators report each element of \<^verbatim>\<open>tags\<close> under a path of its
  own.\<close>

datatype update_op =
    Set_title string
  | Set_body string
  | Set_tags "string list"
  | Set_category string
  | Set_author oid
  | Set_views int
  | Inc_views int

fun cast_op :: "update_op \<Rightarrow> update_op" where
  "cast_op (Set_title t) = Set_title (trim t)"
| "cast_op (Set_tags ts) = Set_tags (map trim ts)"
| "cast_op u = u"

fun validate_op :: "update_op \<Rightarrow> (path \<times> string) list" where
  "validate_op (Set_title t) = validate_title (Some t)"
| "validate_op (Set_body b) = validate_body (Some b)"
| "validate_op (Set_tags ts) = validate_tags ts"
| "validate_op (Set_category c) = validate_category c"
| "validate_op u = []"

fun apply_op :: "update_op \<Rightarrow> post_doc \<Rightarrow> post_doc" where
  "apply_op (Set_title t) p = p\<lparr>title := t\<rparr>"
| "apply_op (Set_body b) p = p\<lparr>body := b\<rparr>"
| "apply_op (Set_tags ts) p = p\<lparr>tags := ts\<rparr>"
| "apply_op (Set_category c) p = p\<lparr>category := c\<rparr>"
| "apply_op (Set_author a) p = p\<lparr>author := a\<rparr>"
| "apply_op (Set_views n) p = p\<lparr>views := n\<rparr>"
| "apply_op (Inc_views n) p = p\<lparr>views := views p + n\<rparr>"

fun update_first :: "('a \<Rightarrow> bool) \<Rightarrow> ('a \<Rightarrow> 'a) \<Rightarrow> 'a list \<Rightarrow> 'a list" where
  "update_first P f [] = []"
| "update_first P f (x # xs) = (if P x then f x # xs else x # update_first P f xs)"

fun remove_first :: "('a \<Rightarrow> bool) \<Rightarrow> 'a list \<Rightarrow> 'a list" where
  "remove_first P [] = []"
| "remove_first P (x # xs) = (if P x then xs else x # remove_first P xs)"

text \<open>\<^verbatim>\<open>Post.findByIdAndUpdate(id, update, {new, runValidators})\<close>: one operation of
  the store. The update validators run before anything is written; the timestamps
  option of the schema sets \<^verbatim>\<open>updatedAt\<close> on every update.\<close>

definition Post_findByIdAndUpdate ::
  "env \<Rightarrow> store \<Rightarrow> string \<Rightarrow> update_op list \<Rightarrow> bool \<Rightarrow> bool \<Rightarrow> nat
     \<Rightarrow> (db_error + post_doc option) \<times> store" where
  "Post_findByIdAndUpdate e st i ops return_new run_validators now =
     (case castObjectId e i of
        None \<Rightarrow> (Inl CastError, st)
      | Some k \<Rightarrow>
          (let ops' = map cast_op ops;
               errs = (if run_validators then concat (map validate_op ops') else [])
           in if errs \<noteq> [] then (Inl (ValidationError (mset (map snd errs))), st)
              else
                (case find (\<lambda>p. post_id p = k) (posts st) of
                   None \<Rightarrow> (Inr None, st)
                 | Some p \<Rightarrow>
                     (let upd = (\<lambda>q. (fold apply_op ops' q)\<lparr>updatedAt := now\<rparr>)
                      in (Inr (Some (if return_new then upd p else p)),
                          st\<lparr>posts := update_first (\<lambda>q. post_id q = k) upd (posts st)\<rparr>)))))"

definition Post_findByIdAndDelete :: "env \<Rightarrow> store \<Rightarrow> string \<Rightarrow> (db_error + unit) \<times> store" where
  "Post_findByIdAndDelete e st i =
     (case castObjectId e i of
        None \<Rightarrow> (Inl CastError, st)
      | Some k \<Rightarrow> (Inr (), st\<lparr>posts := remove_first (\<lambda>q. post_id q = k) (posts st)\<rparr>))"

text \<open>\<^verbatim>\<open>populate(path, fields)\<close>: a further query, which the database may reject; it
  gives the referenced user with the selected fields, or \<^verbatim>\<open>null\<close> when no user has
  that key.\<close>

record author_view =
  a_id :: oid
  a_username :: string
  a_email :: "string option"
  a_role :: "string option"

definition referenced :: "store \<Rightarrow> bool \<Rightarrow> oid \<Rightarrow> author_view option" where
  "referenced st with_email_role k =
     map_option
       (\<lambda>u. \<lparr>a_id = user_id u, a_username = username u,
              a_email = (if with_email_role then Some (email u) else None),
              a_role = (if with_email_role then Some (role u) else None)\<rparr>)
       (find (\<lambda>u. user_id u = k) (users st))"

definition populate :: "env \<Rightarrow> store \<Rightarrow> bool \<Rightarrow> oid \<Rightarrow> db_error + author_view option" where
  "populate e st with_email_role k =
     (if populate_fails e k then Inl DbFailure else Inr (referenced st with_email_role k))"

subsection \<open>The post handlers (\<^verbatim>\<open>routes/posts.js\<close>)\<close>

record post_body =
  b_title :: "string option"
  b_body :: "string option"
  b_tags :: "string list option"
  b_category :: "string option"

datatype post_reply =
  PostReply (r_status: nat) (r_message: "string option") (r_post: "post_doc option")
    (r_author: "author_view option")

text \<open>\<^verbatim>\<open>router.get('/:id')\<close>. The handler awaits the store twice, and other requests
  may run between the two. \<open>getPost_read\<close> is the handler up to the first
  \<^verbatim>\<open>await\<close>: the lookup with its \<^verbatim>\<open>populate\<close>. \<open>getPost_write\<close> is the rest: it takes
  the document that was read and the store as it is by then, issues the increment as
  the update \<^verbatim>\<open>{$inc: {views: 1}}\<close>, and sends the document that was read.\<close>

definition getPost_read ::
  "env \<Rightarrow> store \<Rightarrow> string \<Rightarrow> failure + post_doc \<times> author_view option" where
  "getPost_read e st i =
     (case Post_findById e st i of
        Inl CastError \<Rightarrow> Inl (Failure 400 ''Invalid post ID'' None)
      | Inl _ \<Rightarrow> Inl (Failure 500 ''Error fetching post'' None)
      | Inr None \<Rightarrow> Inl (Failure 404 ''Post not found'' None)
      | Inr (Some post) \<Rightarrow>
          (case populate e st True (author post) of
             Inl _ \<Rightarrow> Inl (Failure 500 ''Error fetching post'' None)
           | Inr a \<Rightarrow> Inr (post, a)))"

definition getPost_write ::
  "env \<Rightarrow> store \<Rightarrow> string \<Rightarrow> post_doc \<Rightarrow> author_view option \<Rightarrow> nat
     \<Rightarrow> (failure + post_reply) \<times> store" where
  "getPost_write e st i post a now =
     (case Post_findByIdAndUpdate e st i [Inc_views 1] False False now of
        (Inl CastError, st') \<Rightarrow> (Inl (Failure 400 ''Invalid post ID'' None), st')
      | (Inl _, st') \<Rightarrow> (Inl (Failure 500 ''Error fetching post'' None), st')
      | (Inr _, st') \<Rightarrow> (Inr (PostReply 200 None (Some post) a), st'))"

text \<open>The handler when no other request runs between its two steps.\<close>

definition getPost :: "env \<Rightarrow> store \<Rightarrow> string \<Rightarrow> nat \<Rightarrow> (failure + post_reply) \<times> store" where
  "getPost e st i now =
     (case getPost_read e st i of
        Inl f \<Rightarrow> (Inl f, st)
      | Inr (post, a) \<Rightarrow> getPost_write e st i post a now)"

text \<open>\<^verbatim>\<open>router.post('/', auth, editorAuth, ...)\<close>. An empty string is falsy, so
  \<^verbatim>\<open>category || 'General'\<close> replaces it; an array is truthy even when empty. The
  \<^verbatim>\<open>populate\<close> comes after the \<^verbatim>\<open>save\<close>: when it fails the post is stored and the
  reply is 500.\<close>

definition createPost ::
  "env \<Rightarrow> store \<Rightarrow> string option \<Rightarrow> post_body \<Rightarrow> oid \<Rightarrow> nat \<Rightarrow> (failure + post_reply) \<times> store" where
  "createPost e st hdr b new_id now =
     (case auth e st hdr of
        Inl f \<Rightarrow> (Inl f, st)
      | Inr user \<Rightarrow>
          (case editorAuth user of
             Inl f \<Rightarrow> (Inl f, st)
           | Inr _ \<Rightarrow>
               (let tgs = (case b_tags b of None \<Rightarrow> [] | Some ts \<Rightarrow> ts);
                    cat = (case b_category b of
                             None \<Rightarrow> ''General''
                           | Some c \<Rightarrow> if c = [] then ''General'' else c)
                in case Post_save st new_id now (b_title b) (b_body b) (user_id user) tgs cat of
                     (Inl (ValidationError errs), st') \<Rightarrow>
                       (Inl (Failure 400 ''Validation error'' (Some errs)), st')
                   | (Inl _, st') \<Rightarrow> (Inl (Failure 500 ''Error creating post'' None), st')
                   | (Inr post, st') \<Rightarrow>
                       (case populate e st' False (author post) of
                          Inl _ \<Rightarrow> (Inl (Failure 500 ''Error creating post'' None), st')
                        | Inr a \<Rightarrow>
                            (Inr (PostReply 201 (Some ''Post created successfully'') (Some post) a),
                             st')))))"

text \<open>The update document \<^verbatim>\<open>{ title, body, tags, category }\<close> of the update handler.\<close>

definition update_doc :: "post_body \<Rightarrow> update_op list" where
  "update_doc b =
     (case b_title b of None \<Rightarrow> [] | Some t \<Rightarrow> [Set_title t]) @
     (case b_body b of None \<Rightarrow> [] | Some x \<Rightarrow> [Set_body x]) @
     (case b_tags b of None \<Rightarrow> [] | Some ts \<Rightarrow> [Set_tags ts]) @
     (case b_category b of None \<Rightarrow> [] | Some c \<Rightarrow> [Set_category c])"

text \<open>\<^verbatim>\<open>router.put('/:id', auth, editorAuth, ...)\<close>.\<close>

definition updatePost ::
  "env \<Rightarrow> store \<Rightarrow> string option \<Rightarrow> string \<Rightarrow> post_body \<Rightarrow> nat \<Rightarrow> (failure + post_reply) \<times> store" where
  "updatePost e st hdr i b now =
     (case auth e st hdr of
        Inl f \<Rightarrow> (Inl f, st)
      | Inr user \<Rightarrow>
          (case editorAuth user of
             Inl f \<Rightarrow> (Inl f, st)
           | Inr _ \<Rightarrow>
               (case Post_findById e st i of
                  Inl _ \<Rightarrow> (Inl (Failure 500 ''Error updating post'' None), st)
                | Inr None \<Rightarrow> (Inl (Failure 404 ''Post not found'' None), st)
                | Inr (Some post) \<Rightarrow>
                    if author post \<noteq> user_id user \<and> role user \<noteq> ''Admin''
                    then (Inl (Failure 403 ''Not authorized to update this post'' None), st)
                    else
                      (case Post_findByIdAndUpdate e st i (update_doc b) True True now of
                         (Inl (ValidationError errs), st') \<Rightarrow>
                           (Inl (Failure 400 ''Validation error'' (Some errs)), st')
                       | (Inl _, st') \<Rightarrow> (Inl (Failure 500 ''Error updating post'' None), st')
                       | (Inr None, st') \<Rightarrow>
                           (Inr (PostReply 200 (Some ''Post updated successfully'') None None), st')
                       | (Inr (Some p), st') \<Rightarrow>
                           (case populate e st' False (author p) of
                              Inl _ \<Rightarrow> (Inl (Failure 500 ''Error updating post'' None), st')
                            | Inr a \<Rightarrow>
                                (Inr (PostReply 200 (Some ''Post updated successfully'') (Some p) a),
                                 st'))))))"

text \<open>\<^verbatim>\<open>router.delete('/:id', auth, editorAuth, ...)\<close>.\<close>

definition deletePost ::
  "env \<Rightarrow> store \<Rightarrow> string option \<Rightarrow> string \<Rightarrow> (failure + post_reply) \<times> store" where
  "deletePost e st hdr i =
     (case auth e st hdr of
        Inl f \<Rightarrow> (Inl f, st)
      | Inr user \<Rightarrow>
          (case editorAuth user of
             Inl f \<Rightarrow> (Inl f, st)
           | Inr _ \<Rightarrow>
               (case Post_findById e st i of
                  Inl _ \<Rightarrow> (Inl (Failure 500 ''Error deleting post'' None), st)
                | Inr None \<Rightarrow> (Inl (Failure 404 ''Post not found'' None), st)
                | Inr (Some post) \<Rightarrow>
                    if author post \<noteq> user_id user \<and> role user \<noteq> ''Admin''
                    then (Inl (Failure 403 ''Not authorized to delete this post'' None), st)
                    else
                      (case Post_findByIdAndDelete e st i of
                         (Inl _, st') \<Rightarrow> (Inl (Failure 500 ''Error deleting post'' None), st')
                       | (Inr _, st') \<Rightarrow>
                           (Inr (PostReply 200 (Some ''Post deleted successfully'') None None),
                            st')))))"

subsection \<open>The comment handlers (\<^verbatim>\<open>routes/comments.js\<close>)\<close>


definition Comment_findByIdAndUpdate ::
  "env \<Rightarrow> store \<Rightarrow> string \<Rightarrow> string \<Rightarrow> nat \<Rightarrow> (db_error + comment_doc option) \<times> store" where
  "Comment_findByIdAndUpdate e st i txt now =
     (case castObjectId e i of
        None \<Rightarrow> (Inl CastError, st)
      | Some k \<Rightarrow>
          (let t = trim txt; errs = validate_comment (Some t)
           in if errs \<noteq> [] then (Inl (ValidationError (mset (map snd errs))), st)
              else
                (case find (\<lambda>c. comment_id c = k) (comments st) of
                   None \<Rightarrow> (Inr None, st)
                 | Some c \<Rightarrow>
                     (let upd = (\<lambda>d. d\<lparr>comment := t, c_updatedAt := now\<rparr>)
                      in (Inr (Some (upd c)),
                          st\<lparr>comments :=
                               update_first (\<lambda>d. comment_id d = k) upd (comments st)\<rparr>)))))"

definition Comment_findByIdAndDelete ::
  "env \<Rightarrow> store \<Rightarrow> string \<Rightarrow> (db_error + unit) \<times> store" where
  "Comment_findByIdAndDelete e st i =
     (case castObjectId e i of
        None \<Rightarrow> (Inl CastError, st)
      | Some k \<Rightarrow>
          (Inr (), st\<lparr>comments := remove_first (\<lambda>d. comment_id d = k) (comments st)\<rparr>))"

datatype comment_reply =
  CommentReply (cr_status: nat) (cr_message: string) (cr_comment: "comment_doc option")
    (cr_user: "author_view option")


text \<open>\<^verbatim>\<open>router.put('/:id', auth, ...)\<close>. The check of the body comes before the
  lookup and the ownership check; the \<^verbatim>\<open>catch\<close> classifies nothing.\<close>

definition updateComment ::
  "env \<Rightarrow> store \<Rightarrow> string option \<Rightarrow> string \<Rightarrow> string option \<Rightarrow> nat
     \<Rightarrow> (failure + comment_reply) \<times> store" where
  "updateComment e st hdr i b_comment now =
     (case auth e st hdr of
        Inl f \<Rightarrow> (Inl f, st)
      | Inr user \<Rightarrow>
          (case b_comment of
             None \<Rightarrow> (Inl (Failure 400 ''Comment content is required'' None), st)
           | Some txt \<Rightarrow>
               if txt = [] \<or> trim txt = []
               then (Inl (Failure 400 ''Comment content is required'' None), st)
               else
                 (case Comment_findById e st i of
                    Inl _ \<Rightarrow> (Inl (Failure 500 ''Error updating comment'' None), st)
                  | Inr None \<Rightarrow> (Inl (Failure 404 ''Comment not found'' None), st)
                  | Inr (Some existingComment) \<Rightarrow>
                      if userID existingComment \<noteq> user_id user \<and> role user \<noteq> ''Admin''
                      then (Inl (Failure 403 ''Not authorized to update this comment'' None), st)
                      else
                        (case Comment_findByIdAndUpdate e st i (trim txt) now of
                           (Inl _, st') \<Rightarrow>
                             (Inl (Failure 500 ''Error updating comment'' None), st')
                         | (Inr None, st') \<Rightarrow>
                             (Inr (CommentReply 200 ''Comment updated successfully'' None None),
                              st')
                         | (Inr (Some c), st') \<Rightarrow>
                             (case populate e st' False (userID c) of
                                Inl _ \<Rightarrow>
                                  (Inl (Failure 500 ''Error updating comment'' None), st')
                              | Inr a \<Rightarrow>
                                  (Inr (CommentReply 200 ''Comment updated successfully'' (Some c)
                                          a), st'))))))"

text \<open>\<^verbatim>\<open>router.delete('/:id', auth, ...)\<close>.\<close>

definition deleteComment ::
  "env \<Rightarrow> store \<Rightarrow> string option \<Rightarrow> string \<Rightarrow> (failure + comment_reply) \<times> store" where
  "deleteComment e st hdr i =
     (case auth e st hdr of
        Inl f \<Rightarrow> (Inl f, st)
      | Inr user \<Rightarrow>
          (case Comment_findById e st i of
             Inl _ \<Rightarrow> (Inl (Failure 500 ''Error deleting comment'' None), st)
           | Inr None \<Rightarrow> (Inl (Failure 404 ''Comment not found'' None), st)
           | Inr (Some c) \<Rightarrow>
               if userID c \<noteq> user_id user \<and> role user \<noteq> ''Admin''
               then (Inl (Failure 403 ''Not authorized to delete this comment'' None), st)
               else
                 (case Comment_findByIdAndDelete e st i of
                    (Inl _, st') \<Rightarrow> (Inl (Failure 500 ''Error deleting comment'' None), st')
                  | (Inr _, st') \<Rightarrow>
                      (Inr (CommentReply 200 ''Comment deleted successfully'' None None), st'))))"

subsection \<open>Numbers from query strings\<close>

text \<open>The value of a digit in radix \<open>R\<close>, for \<open>R\<close> up to 36.\<close>

definition digit_val :: "nat \<Rightarrow> char \<Rightarrow> nat option" where
  "digit_val R c =
     (let n = (of_char c :: nat);
          d = (if 48 \<le> n \<and> n \<le> 57 then Some (n - 48)
               else if 97 \<le> n \<and> n \<le> 122 then Some (n - 87)
               else if 65 \<le> n \<and> n \<le> 90 then Some (n - 55)
               else None)
      in case d of None \<Rightarrow> None | Some v \<Rightarrow> if v < R then Some v else None)"

definition is_digit :: "nat \<Rightarrow> char \<Rightarrow> bool" where
  "is_digit R c = (digit_val R c \<noteq> None)"

definition digits_val :: "nat \<Rightarrow> string \<Rightarrow> nat" where
  "digits_val R s = foldl (\<lambda>a c. a * R + (case digit_val R c of None \<Rightarrow> 0 | Some d \<Rightarrow> d)) 0 s"

text \<open>\<^verbatim>\<open>parseInt(s)\<close> without a radix: leading white space, a sign, a \<^verbatim>\<open>0x\<close> prefix,
  then the longest run of digits; what follows is ignored. The integer read is rounded
  to a double.\<close>

definition parseInt :: "string \<Rightarrow> jsnum" where
  "parseInt s =
     (let S = trim_start s;
          neg = (take 1 S = ''-'');
          S1 = (if take 1 S = ''+'' \<or> take 1 S = ''-'' then drop 1 S else S);
          hex = (take 2 S1 = ''0x'' \<or> take 2 S1 = ''0X'');
          R = (if hex then 16 else 10);
          Z = takeWhile (is_digit R) (if hex then drop 2 S1 else S1)
      in if Z = [] then NaN
         else if digits_val R Z = 0 then (if neg then NegZero else Num 0)
         else to_double ((if neg then - 1 else 1) * of_nat (digits_val R Z)))"

text \<open>The conversion of a string to a number (\<^verbatim>\<open>Number(s)\<close>, and the coercion of a string
  operand of \<^verbatim>\<open><\<close>, \<^verbatim>\<open>>\<close> and \<^verbatim>\<open>/\<close>): the whole trimmed string must be a numeric
  literal, and the empty string is 0. The value of the literal is rounded to a double.\<close>

definition js_neg :: "jsnum \<Rightarrow> jsnum" where
  "js_neg x =
     (case x of
        NaN \<Rightarrow> NaN
      | PosInf \<Rightarrow> NegInf
      | NegInf \<Rightarrow> PosInf
      | NegZero \<Rightarrow> Num 0
      | Num v \<Rightarrow> if v = 0 then NegZero else Num (- v))"

definition parse_exponent :: "string \<Rightarrow> int option" where
  "parse_exponent r =
     (if r = [] then Some 0
      else if take 1 r = ''e'' \<or> take 1 r = ''E'' then
        (let r1 = drop 1 r;
             neg = (take 1 r1 = ''-'');
             ds = (if take 1 r1 = ''+'' \<or> take 1 r1 = ''-'' then drop 1 r1 else r1)
         in if ds \<noteq> [] \<and> list_all (is_digit 10) ds
            then Some ((if neg then - 1 else 1) * int (digits_val 10 ds))
            else None)
      else None)"

definition str_unsigned_decimal :: "string \<Rightarrow> jsnum" where
  "str_unsigned_decimal u =
     (if u = ''Infinity'' then PosInf
      else
        (let d1 = takeWhile (is_digit 10) u;
             r1 = dropWhile (is_digit 10) u;
             dot = (take 1 r1 = ''.'');
             d2 = (if dot then takeWhile (is_digit 10) (drop 1 r1) else []);
             r2 = (if dot then dropWhile (is_digit 10) (drop 1 r1) else r1)
         in if d1 = [] \<and> d2 = [] then NaN
            else
              (case parse_exponent r2 of
                 None \<Rightarrow> NaN
               | Some x \<Rightarrow>
                   to_double
                     ((of_nat (digits_val 10 d1) + of_nat (digits_val 10 d2) / 10 ^ length d2) *
                      (if 0 \<le> x then 10 ^ nat x else 1 / 10 ^ nat (- x))))))"

definition non_decimal :: "nat \<Rightarrow> string \<Rightarrow> jsnum" where
  "non_decimal R ds =
     (if ds \<noteq> [] \<and> list_all (is_digit R) ds then to_double (of_nat (digits_val R ds))
      else NaN)"

definition toNumber :: "string \<Rightarrow> jsnum" where
  "toNumber s =
     (let t = trim s
      in if t = [] then Num 0
         else if take 2 t = ''0x'' \<or> take 2 t = ''0X'' then non_decimal 16 (drop 2 t)
         else if take 2 t = ''0o'' \<or> take 2 t = ''0O'' then non_decimal 8 (drop 2 t)
         else if take 2 t = ''0b'' \<or> take 2 t = ''0B'' then non_decimal 2 (drop 2 t)
         else if take 1 t = ''-'' then js_neg (str_unsigned_decimal (drop 1 t))
         else if take 1 t = ''+'' then str_unsigned_decimal (drop 1 t)
         else str_unsigned_decimal t)"

text \<open>The arithmetic the list handler uses. \<open>js_lt a b\<close> is \<^verbatim>\<open>a < b\<close> on numbers:
  false when either side is not a number.\<close>

definition fin :: "jsnum \<Rightarrow> rat" where
  "fin x = (case x of Num v \<Rightarrow> v | _ \<Rightarrow> 0)"

definition is_neg :: "jsnum \<Rightarrow> bool" where
  "is_neg x = (case x of NegInf \<Rightarrow> True | NegZero \<Rightarrow> True | Num v \<Rightarrow> v < 0 | _ \<Rightarrow> False)"

definition is_inf :: "jsnum \<Rightarrow> bool" where
  "is_inf x = (x = PosInf \<or> x = NegInf)"

definition is_zero :: "jsnum \<Rightarrow> bool" where
  "is_zero x = (x = NegZero \<or> x = Num 0)"

fun js_lt :: "jsnum \<Rightarrow> jsnum \<Rightarrow> bool" where
  "js_lt NaN b = False"
| "js_lt a NaN = False"
| "js_lt PosInf b = False"
| "js_lt a NegInf = False"
| "js_lt a PosInf = True"
| "js_lt NegInf b = True"
| "js_lt a b = (fin a < fin b)"

text \<open>\<^verbatim>\<open>a - 1\<close>, \<^verbatim>\<open>a * b\<close> and \<^verbatim>\<open>a / b\<close>: the exact result, rounded to a double.\<close>

definition js_sub1 :: "jsnum \<Rightarrow> jsnum" where
  "js_sub1 a =
     (case a of
        NaN \<Rightarrow> NaN
      | PosInf \<Rightarrow> PosInf
      | NegInf \<Rightarrow> NegInf
      | NegZero \<Rightarrow> Num (- 1)
      | Num v \<Rightarrow> to_double (v - 1))"

definition js_mul :: "jsnum \<Rightarrow> jsnum \<Rightarrow> jsnum" where
  "js_mul a b =
     (if a = NaN \<or> b = NaN then NaN
      else if (is_inf a \<and> is_zero b) \<or> (is_zero a \<and> is_inf b) then NaN
      else if is_inf a \<or> is_inf b then (if is_neg a \<noteq> is_neg b then NegInf else PosInf)
      else if fin a * fin b = 0 then (if is_neg a \<noteq> is_neg b then NegZero else Num 0)
      else to_double (fin a * fin b))"

definition js_div :: "jsnum \<Rightarrow> jsnum \<Rightarrow> jsnum" where
  "js_div a b =
     (if a = NaN \<or> b = NaN then NaN
      else if is_inf a then
        (if is_inf b then NaN else if is_neg a \<noteq> is_neg b then NegInf else PosInf)
      else if is_inf b then (if is_neg a \<noteq> is_neg b then NegZero else Num 0)
      else if is_zero b then
        (if is_zero a then NaN else if is_neg a \<noteq> is_neg b then NegInf else PosInf)
      else if is_zero a then (if is_neg a \<noteq> is_neg b then NegZero else Num 0)
      else to_double (fin a / fin b))"

text \<open>\<^verbatim>\<open>Math.ceil\<close>: the ceiling of a double is a double.\<close>

definition js_ceil :: "jsnum \<Rightarrow> jsnum" where
  "js_ceil x =
     (case x of
        Num v \<Rightarrow> if - 1 < v \<and> v < 0 then NegZero else Num (of_int \<lceil>v\<rceil>)
      | _ \<Rightarrow> x)"

subsection \<open>The list handler (\<^verbatim>\<open>router.get('/')\<close> of \<^verbatim>\<open>routes/posts.js\<close>)\<close>

text \<open>A query parameter is absent or one string. The defaults of the destructuring
  are numbers (\<^verbatim>\<open>page = 1\<close>, \<^verbatim>\<open>limit = 10\<close>) and apply to an absent parameter only.
  \<^verbatim>\<open>total\<close> is the count that the database returns, as a number of the language.\<close>

record list_query =
  q_page :: "string option"
  q_limit :: "string option"
  q_category :: "string option"
  q_tag :: "string option"
  q_search :: "string option"
  q_sortBy :: "string option"
  q_sortOrder :: "string option"

record pagination =
  currentPage :: jsnum
  totalPages :: jsnum
  totalPosts :: jsnum
  hasNextPage :: bool
  hasPrevPage :: bool

record list_reply =
  l_posts :: "(post_doc \<times> author_view option) list"
  l_pagination :: pagination

text \<open>The filter that the handler builds: a condition is added for a parameter that is
  present and not the empty string (and, for the category, not \<^verbatim>\<open>'all'\<close>).\<close>

definition matches :: "env \<Rightarrow> list_query \<Rightarrow> post_doc \<Rightarrow> bool" where
  "matches e q p =
     ((case q_category q of
         None \<Rightarrow> True
       | Some c \<Rightarrow> if c \<noteq> [] \<and> c \<noteq> ''all'' then category p = c else True) \<and>
      (case q_tag q of
         None \<Rightarrow> True
       | Some t \<Rightarrow> if t \<noteq> [] then t \<in> set (tags p) else True) \<and>
      (case q_search q of
         None \<Rightarrow> True
       | Some s \<Rightarrow> if s \<noteq> [] then text_match e s p else True))"

definition page_parsed :: "list_query \<Rightarrow> jsnum" where
  "page_parsed q = (case q_page q of None \<Rightarrow> Num 1 | Some s \<Rightarrow> parseInt s)"

definition limit_parsed :: "list_query \<Rightarrow> jsnum" where
  "limit_parsed q = (case q_limit q of None \<Rightarrow> Num 10 | Some s \<Rightarrow> parseInt s)"

definition page_coerced :: "list_query \<Rightarrow> jsnum" where
  "page_coerced q = (case q_page q of None \<Rightarrow> Num 1 | Some s \<Rightarrow> toNumber s)"

definition limit_coerced :: "list_query \<Rightarrow> jsnum" where
  "limit_coerced q = (case q_limit q of None \<Rightarrow> Num 10 | Some s \<Rightarrow> toNumber s)"

definition getPosts :: "env \<Rightarrow> store \<Rightarrow> list_query \<Rightarrow> failure + list_reply" where
  "getPosts e st q =
     (let found = filter (matches e q) (posts st);
          sortBy = (case q_sortBy q of None \<Rightarrow> ''createdAt'' | Some f \<Rightarrow> f);
          sortOrder = (case q_sortOrder q of None \<Rightarrow> ''desc'' | Some d \<Rightarrow> d)
      in case cursor e found sortBy (if sortOrder = ''desc'' then - 1 else 1) (limit_parsed q)
                (js_mul (js_sub1 (page_parsed q)) (limit_parsed q)) of
           None \<Rightarrow> Inl (Failure 500 ''Error fetching posts'' None)
         | Some page_docs \<Rightarrow>
             if list_ex (\<lambda>p. populate_fails e (author p)) page_docs
             then Inl (Failure 500 ''Error fetching posts'' None)
             else
               (let total = to_double (of_nat (length found))
                in Inr \<lparr>l_posts = map (\<lambda>p. (p, referenced st False (author p))) page_docs,
                        l_pagination =
                          \<lparr>currentPage = page_parsed q,
                           totalPages = js_ceil (js_div total (limit_coerced q)),
                           totalPosts = total,
                           hasNextPage =
                             js_lt (page_coerced q) (js_ceil (js_div total (limit_coerced q))),
                           hasPrevPage = js_lt (Num 1) (page_coerced q)\<rparr>\<rparr>))"

subsection \<open>The predicates of the authorization policy, in the words of the spec\<close>

text \<open>The handlers have no function of these names: the role gate is \<open>editorAuth\<close> and
  the ownership check is written out in each handler. The two definitions follow the
  spec; the theorems below compare the handlers with them.\<close>

definition spec_canAuthor :: "string \<Rightarrow> bool" where
  "spec_canAuthor r = (r = ''Admin'' \<or> r = ''Editor'')"

definition spec_canModify :: "oid \<Rightarrow> string \<Rightarrow> oid \<Rightarrow> bool" where
  "spec_canModify actorIdentity actorRole resourceOwnerIdentity =
     (actorRole = ''Admin'' \<or> actorIdentity = resourceOwnerIdentity)"

text \<open>The reply is \<^verbatim>\<open>Forbidden\<close> (HTTP 403), \<^verbatim>\<open>NotFound\<close> (HTTP 404).\<close>

definition forbidden :: "(failure + 'a) \<times> store \<Rightarrow> bool" where
  "forbidden r = (case fst r of Inl f \<Rightarrow> status f = 403 | Inr _ \<Rightarrow> False)"

text \<open>The constraints of the post schema on the fields of an update request, in the
  words of the spec: a title is present and at most 200 characters long (after the
  trim), a body is at least 10 characters long, a tag is at most 50 characters long
  (after the trim), a category is one of the fixed values. A field that the request
  omits violates nothing.\<close>

definition title_violated :: "post_body \<Rightarrow> bool" where
  "title_violated b =
     (case b_title b of None \<Rightarrow> False | Some t \<Rightarrow> trim t = [] \<or> length (trim t) > 200)"

definition body_violated :: "post_body \<Rightarrow> bool" where
  "body_violated b = (case b_body b of None \<Rightarrow> False | Some x \<Rightarrow> length x < 10)"

definition long_tags :: "post_body \<Rightarrow> string list" where
  "long_tags b =
     (case b_tags b of None \<Rightarrow> [] | Some ts \<Rightarrow> filter (\<lambda>t. length t > 50) (map trim ts))"

definition category_violated :: "post_body \<Rightarrow> bool" where
  "category_violated b = (case b_category b of None \<Rightarrow> False | Some c \<Rightarrow> c \<notin> set categories)"

subsection \<open>A concrete environment and store\<close>

text \<open>The instances at which the general theorems are exercised. Keys are 24
  hexadecimal digits, read without regard to case; a token names its user.\<close>

definition is_hex :: "char \<Rightarrow> bool" where
  "is_hex c =
     (let n = (of_char c :: nat)
      in (48 \<le> n \<and> n \<le> 57) \<or> (97 \<le> n \<and> n \<le> 102) \<or> (65 \<le> n \<and> n \<le> 70))"

definition lower :: "char \<Rightarrow> char" where
  "lower c = (let n = (of_char c :: nat) in if 65 \<le> n \<and> n \<le> 90 then char_of (n + 32) else c)"

definition hex24 :: "string \<Rightarrow> oid option" where
  "hex24 s = (if length s = 24 \<and> list_all is_hex s then Some (map lower s) else None)"

definition alice_id :: oid where "alice_id = ''aaaaaaaaaaaaaaaaaaaaaa01''"
definition bob_id :: oid where "bob_id = ''aaaaaaaaaaaaaaaaaaaaaa02''"
definition carol_id :: oid where "carol_id = ''aaaaaaaaaaaaaaaaaaaaaa03''"
definition dave_id :: oid where "dave_id = ''aaaaaaaaaaaaaaaaaaaaaa04''"
definition ghost_id :: oid where "ghost_id = ''aaaaaaaaaaaaaaaaaaaaaa09''"
definition post1_id :: oid where "post1_id = ''bbbbbbbbbbbbbbbbbbbbbb01''"
definition post2_id :: oid where "post2_id = ''bbbbbbbbbbbbbbbbbbbbbb02''"
definition comment1_id :: oid where "comment1_id = ''cccccccccccccccccccccc01''"
definition comment2_id :: oid where "comment2_id = ''cccccccccccccccccccccc02''"

definition verify0 :: "string \<Rightarrow> string option" where
  "verify0 t =
     (if t = ''tok-alice'' then Some alice_id
      else if t = ''tok-bob'' then Some bob_id
      else if t = ''tok-carol'' then Some carol_id
      else if t = ''tok-dave'' then Some dave_id
      else if t = ''tok-ghost'' then Some ghost_id
      else None)"

definition env0 :: env where
  "env0 = \<lparr>jwt_verify = verify0, castObjectId = hex24, text_match = (\<lambda>s p. False),
            cursor = (\<lambda>ps sortBy dir lm skp. Some ps), populate_fails = (\<lambda>k. False)\<rparr>"

definition alice :: user_doc where
  "alice = \<lparr>user_id = alice_id, username = ''alice'', email = ''alice@test.com'',
             password = Some ''$2a$10$hashA'', role = ''Admin''\<rparr>"

definition bob :: user_doc where
  "bob = \<lparr>user_id = bob_id, username = ''bob'', email = ''bob@test.com'',
           password = Some ''$2a$10$hashB'', role = ''Editor''\<rparr>"

definition carol :: user_doc where
  "carol = \<lparr>user_id = carol_id, username = ''carol'', email = ''carol@test.com'',
             password = Some ''$2a$10$hashC'', role = ''User''\<rparr>"

definition dave :: user_doc where
  "dave = \<lparr>user_id = dave_id, username = ''dave'', email = ''dave@test.com'',
            password = Some ''$2a$10$hashD'', role = ''Editor''\<rparr>"

definition post1 :: post_doc where
  "post1 = \<lparr>post_id = post1_id, title = ''Hello'', body = ''This is a test body.'',
             author = bob_id, tags = [''a'', ''b''], category = ''General'', views = 7,
             createdAt = 100, updatedAt = 100\<rparr>"

definition comment1 :: comment_doc where
  "comment1 = \<lparr>comment_id = comment1_id, postID = post1_id, userID = carol_id,
                comment = ''Nice post'', c_createdAt = 110, c_updatedAt = 110\<rparr>"

definition st0 :: store where
  "st0 = \<lparr>users = [alice, bob, carol, dave], posts = [post1], comments = [comment1]\<rparr>"

definition post3_id :: oid where "post3_id = ''bbbbbbbbbbbbbbbbbbbbbb03''"

definition post2 :: post_doc where
  "post2 = \<lparr>post_id = post2_id, title = ''Records'', body = ''Records and datatypes.'',
             author = alice_id, tags = [''hol''], category = ''Technology'', views = 0,
             createdAt = 120, updatedAt = 120\<rparr>"

definition post3 :: post_doc where
  "post3 = \<lparr>post_id = post3_id, title = ''Words'', body = ''Machine words wrap.'',
             author = bob_id, tags = [''hol'', ''word''], category = ''Technology'', views = 3,
             createdAt = 130, updatedAt = 130\<rparr>"

definition st1 :: store where
  "st1 = \<lparr>users = [alice, bob, carol, dave], posts = [post1, post2, post3],
           comments = [comment1]\<rparr>"

definition query :: "string option \<Rightarrow> string option \<Rightarrow> string option \<Rightarrow> list_query" where
  "query pg lm cat =
     \<lparr>q_page = pg, q_limit = lm, q_category = cat, q_tag = None, q_search = None,
      q_sortBy = None, q_sortOrder = None\<rparr>"

lemmas example_defs =
  env0_def verify0_def hex24_def is_hex_def lower_def st0_def alice_def bob_def carol_def
  dave_def post1_def comment1_def alice_id_def bob_id_def carol_id_def dave_id_def
  ghost_id_def post1_id_def post2_id_def comment1_id_def comment2_id_def post3_id_def
  post2_def post3_def st1_def query_def

lemmas find_defs = User_findById_def Post_findById_def Comment_findById_def

section \<open>The role gate of post creation, update and deletion\<close>

text \<open>
  C2. A request to create, update or delete a post whose sender is authenticated with
  a role other than Admin and Editor is answered 403 (Forbidden) and leaves the store
  as it was; and the gate \<open>editorAuth\<close> lets a user through exactly when the role is
  Admin or Editor, which is the predicate \<open>canAuthor\<close> of the spec.
\<close>

theorem editor_gate:
  "(editorAuth user = Inr ()) = spec_canAuthor (role user) \<and>
   spec_canAuthor r = (r = ''Admin'' \<or> r = ''Editor'') \<and>
   (auth e st hdr = Inr user \<and> role user \<noteq> ''Admin'' \<and> role user \<noteq> ''Editor'' \<longrightarrow>
      createPost e st hdr b new_id now =
        (Inl (Failure 403 ''Editor or Admin access required'' None), st) \<and>
      updatePost e st hdr i b now =
        (Inl (Failure 403 ''Editor or Admin access required'' None), st) \<and>
      deletePost e st hdr i =
        (Inl (Failure 403 ''Editor or Admin access required'' None), st))"
  by (simp add: editorAuth_def spec_canAuthor_def createPost_def updatePost_def deletePost_def)

theorem editor_gate_witness:
  "auth env0 st0 (Some ''Bearer tok-carol'') = Inr (carol\<lparr>password := None\<rparr>) \<and>
   role carol = ''User'' \<and>
   createPost env0 st0 (Some ''Bearer tok-carol'')
       \<lparr>b_title = Some ''Hello'', b_body = Some ''This is a test body.'', b_tags = None,
        b_category = None\<rparr> post2_id 200 =
     (Inl (Failure 403 ''Editor or Admin access required'' None), st0) \<and>
   deletePost env0 st0 (Some ''Bearer tok-carol'') post1_id =
     (Inl (Failure 403 ''Editor or Admin access required'' None), st0)"
proof -
  have a: "auth env0 st0 (Some ''Bearer tok-carol'') = Inr (carol\<lparr>password := None\<rparr>)"
    by (simp add: auth_def find_defs example_defs)
  have r: "role (carol\<lparr>password := None\<rparr>) = ''User''"
    by (simp add: carol_def)
  from editor_gate [of "carol\<lparr>password := None\<rparr>" "''User''" env0 st0
      "Some ''Bearer tok-carol''" _ post2_id 200 post1_id] a r
  show ?thesis by (simp add: carol_def)
qed

section \<open>The credential check\<close>

lemma auth_failure_status: "auth e st hdr = Inl f \<Longrightarrow> status f = 401"
  by (auto simp: auth_def split: option.splits if_splits sum.splits)

lemma auth_success:
  "auth e st hdr = Inr u \<Longrightarrow> password u = None \<and> (\<exists>s \<in> set (users st). u = s\<lparr>password := None\<rparr>)"
  by (auto simp: auth_def User_findById_def find_Some_iff
      split: option.splits if_splits sum.splits)

text \<open>
  C4, as the code has it. Every failure of the credential check is answered 401. A
  request without a token (no header, or nothing left of the header once
  \<^verbatim>\<open>'Bearer '\<close> is removed) gets the message \<^verbatim>\<open>No token provided, authorization denied\<close>.
  A token that fails verification and a token whose decoded identity names no stored
  user get one and the same reply, \<^verbatim>\<open>Token is not valid\<close>: these two cases are not
  told apart. On success the request carries the stored user (identity, username,
  email, role) without the password credential.
\<close>

theorem credential_check:
  "(hdr = None \<or> (\<exists>h. hdr = Some h \<and> replace_first ''Bearer '' '''' h = []) \<longrightarrow>
      auth e st hdr = Inl (Failure 401 ''No token provided, authorization denied'' None)) \<and>
   (hdr = Some h \<and> replace_first ''Bearer '' '''' h = token \<and> token \<noteq> [] \<and>
    jwt_verify e token = None \<longrightarrow>
      auth e st hdr = Inl (Failure 401 ''Token is not valid'' None)) \<and>
   (hdr = Some h \<and> replace_first ''Bearer '' '''' h = token \<and> token \<noteq> [] \<and>
    jwt_verify e token = Some decoded_id \<and>
    (\<forall>u. User_findById e st decoded_id \<noteq> Inr (Some u)) \<longrightarrow>
      auth e st hdr = Inl (Failure 401 ''Token is not valid'' None)) \<and>
   (hdr = Some h \<and> replace_first ''Bearer '' '''' h = token \<and> token \<noteq> [] \<and>
    jwt_verify e token = Some decoded_id \<and> User_findById e st decoded_id = Inr (Some user) \<longrightarrow>
      auth e st hdr = Inr (user\<lparr>password := None\<rparr>)) \<and>
   (auth e st hdr = Inl f \<longrightarrow> status f = 401) \<and>
   (auth e st hdr = Inr u \<longrightarrow>
      password u = None \<and>
      (\<exists>s \<in> set (users st). user_id u = user_id s \<and> username u = username s \<and>
          email u = email s \<and> role u = role s))"
proof (intro conjI impI)
  show "status f = 401" if "auth e st hdr = Inl f"
    using that by (rule auth_failure_status)
next
  assume "auth e st hdr = Inr u"
  from auth_success [OF this] show "password u = None" by simp
next
  assume "auth e st hdr = Inr u"
  from auth_success [OF this]
  show "\<exists>s \<in> set (users st). user_id u = user_id s \<and> username u = username s \<and>
          email u = email s \<and> role u = role s"
    by auto
qed (auto simp: auth_def split: option.splits sum.splits)

text \<open>The four cases at the example store: no header, a forged token, the token of a
  user who is gone, and the token of Bob.\<close>

theorem credential_check_witness:
  "auth env0 st0 None = Inl (Failure 401 ''No token provided, authorization denied'' None) \<and>
   jwt_verify env0 ''tok-forged'' = None \<and>
   auth env0 st0 (Some ''Bearer tok-forged'') = Inl (Failure 401 ''Token is not valid'' None) \<and>
   jwt_verify env0 ''tok-ghost'' = Some ghost_id \<and>
   User_findById env0 st0 ghost_id = Inr None \<and>
   auth env0 st0 (Some ''Bearer tok-ghost'') = Inl (Failure 401 ''Token is not valid'' None) \<and>
   jwt_verify env0 ''tok-bob'' = Some bob_id \<and>
   User_findById env0 st0 bob_id = Inr (Some bob) \<and> password bob \<noteq> None \<and>
   auth env0 st0 (Some ''Bearer tok-bob'') = Inr (bob\<lparr>password := None\<rparr>)"
proof -
  have forged: "replace_first ''Bearer '' '''' ''Bearer tok-forged'' = ''tok-forged''"
    and ghost: "replace_first ''Bearer '' '''' ''Bearer tok-ghost'' = ''tok-ghost''"
    and bobt: "replace_first ''Bearer '' '''' ''Bearer tok-bob'' = ''tok-bob''"
    by simp_all
  have v1: "jwt_verify env0 ''tok-forged'' = None"
    and v2: "jwt_verify env0 ''tok-ghost'' = Some ghost_id"
    and v3: "jwt_verify env0 ''tok-bob'' = Some bob_id"
    by (simp_all add: env0_def verify0_def)
  have u2: "User_findById env0 st0 ghost_id = Inr None"
    and u3: "User_findById env0 st0 bob_id = Inr (Some bob)"
    by (simp_all add: find_defs example_defs)
  have p: "password bob \<noteq> None" by (simp add: bob_def)
  from credential_check [where hdr = None and e = env0 and st = st0]
  have c1: "auth env0 st0 None =
      Inl (Failure 401 ''No token provided, authorization denied'' None)"
    by simp
  from credential_check [where hdr = "Some ''Bearer tok-forged''" and h = "''Bearer tok-forged''"
      and token = "''tok-forged''" and e = env0 and st = st0] forged v1
  have c2: "auth env0 st0 (Some ''Bearer tok-forged'') =
      Inl (Failure 401 ''Token is not valid'' None)"
    by simp
  from credential_check [where hdr = "Some ''Bearer tok-ghost''" and h = "''Bearer tok-ghost''"
      and token = "''tok-ghost''" and decoded_id = ghost_id and e = env0 and st = st0] ghost v2 u2
  have c3: "auth env0 st0 (Some ''Bearer tok-ghost'') =
      Inl (Failure 401 ''Token is not valid'' None)"
    by simp
  from credential_check [where hdr = "Some ''Bearer tok-bob''" and h = "''Bearer tok-bob''"
      and token = "''tok-bob''" and decoded_id = bob_id and user = bob and e = env0 and st = st0]
    bobt v3 u3
  have c4: "auth env0 st0 (Some ''Bearer tok-bob'') = Inr (bob\<lparr>password := None\<rparr>)"
    by simp
  from c1 c2 c3 c4 v1 v2 v3 u2 u3 p show ?thesis by simp
qed

text \<open>C4 as stated asks that the three failures be distinguished. A forged token and
  the token of a user who no longer exists receive the same reply.\<close>

theorem credential_check_counterexample:
  "jwt_verify env0 ''tok-forged'' = None \<and>
   jwt_verify env0 ''tok-ghost'' = Some ghost_id \<and>
   User_findById env0 st0 ghost_id = Inr None \<and>
   auth env0 st0 (Some ''Bearer tok-forged'') = auth env0 st0 (Some ''Bearer tok-ghost'')"
  by (simp add: auth_def find_defs example_defs)

section \<open>The ownership check of posts and comments\<close>

lemma updatePost_forbidden:
  assumes "auth e st hdr = Inr user" and "Post_findById e st i = Inr (Some post)"
  shows "forbidden (updatePost e st hdr i b now) =
           (\<not> spec_canAuthor (role user) \<or>
            \<not> spec_canModify (user_id user) (role user) (author post))"
  using assms
  by (auto simp: updatePost_def forbidden_def editorAuth_def spec_canAuthor_def
      spec_canModify_def split: prod.splits sum.splits db_error.splits option.splits)

lemma deletePost_forbidden:
  assumes "auth e st hdr = Inr user" and "Post_findById e st i = Inr (Some post)"
  shows "forbidden (deletePost e st hdr i) =
           (\<not> spec_canAuthor (role user) \<or>
            \<not> spec_canModify (user_id user) (role user) (author post))"
  using assms
  by (auto simp: deletePost_def forbidden_def editorAuth_def spec_canAuthor_def
      spec_canModify_def split: prod.splits sum.splits db_error.splits)

lemma deleteComment_forbidden:
  assumes "auth e st hdr = Inr user" and "Comment_findById e st i = Inr (Some c)"
  shows "forbidden (deleteComment e st hdr i) =
           (\<not> spec_canModify (user_id user) (role user) (userID c))"
  using assms
  by (auto simp: deleteComment_def forbidden_def spec_canModify_def
      split: prod.splits sum.splits db_error.splits)

lemma updateComment_forbidden:
  assumes "auth e st hdr = Inr user" and "Comment_findById e st i = Inr (Some c)"
    and "trim txt \<noteq> []"
  shows "forbidden (updateComment e st hdr i (Some txt) now) =
           (\<not> spec_canModify (user_id user) (role user) (userID c))"
proof -
  from assms(3) have "txt \<noteq> []" by (auto simp: trim_def)
  with assms show ?thesis
    by (auto simp: updateComment_def forbidden_def spec_canModify_def
        split: prod.splits sum.splits db_error.splits option.splits)
qed

lemma updateComment_blank:
  assumes "auth e st hdr = Inr user" and "cm = None \<or> (\<exists>t. cm = Some t \<and> trim t = [])"
  shows "updateComment e st hdr i cm now =
           (Inl (Failure 400 ''Comment content is required'' None), st)"
  using assms by (auto simp: updateComment_def)

lemma forbidden_store:
  "forbidden (updatePost e st hdr i b now) \<Longrightarrow> snd (updatePost e st hdr i b now) = st"
  "forbidden (deletePost e st hdr i) \<Longrightarrow> snd (deletePost e st hdr i) = st"
  "forbidden (updateComment e st hdr i c now) \<Longrightarrow> snd (updateComment e st hdr i c now) = st"
  "forbidden (deleteComment e st hdr i) \<Longrightarrow> snd (deleteComment e st hdr i) = st"
  by (auto simp: updatePost_def deletePost_def updateComment_def deleteComment_def forbidden_def
      split: prod.splits sum.splits db_error.splits option.splits if_splits)

text \<open>
  C1, as the code has it. Let the sender be authenticated and the resource exist. An
  update or a deletion of a post is answered 403 (Forbidden) exactly when the sender's
  role is neither Admin nor Editor or \<open>canModify\<close> fails; a deletion of a comment, and
  an update of a comment whose new text is not blank, is answered 403 exactly when
  \<open>canModify\<close> fails. A request answered 403 leaves the store as it was. \<open>canModify\<close>
  holds exactly when the role is Admin or the sender is the owner. An update of a
  comment whose new text is absent or blank (empty once trimmed) is answered 400,
  whoever sends it and whether or not the comment exists.
\<close>

theorem ownership_gate:
  "(auth e st hdr = Inr user \<and> Post_findById e st i = Inr (Some post) \<longrightarrow>
      forbidden (updatePost e st hdr i b now) =
        (\<not> spec_canAuthor (role user) \<or>
         \<not> spec_canModify (user_id user) (role user) (author post)) \<and>
      forbidden (deletePost e st hdr i) =
        (\<not> spec_canAuthor (role user) \<or>
         \<not> spec_canModify (user_id user) (role user) (author post)) \<and>
      (forbidden (updatePost e st hdr i b now) \<longrightarrow> snd (updatePost e st hdr i b now) = st) \<and>
      (forbidden (deletePost e st hdr i) \<longrightarrow> snd (deletePost e st hdr i) = st)) \<and>
   (auth e st hdr = Inr user \<and> Comment_findById e st j = Inr (Some c) \<longrightarrow>
      forbidden (deleteComment e st hdr j) =
        (\<not> spec_canModify (user_id user) (role user) (userID c)) \<and>
      (forbidden (deleteComment e st hdr j) \<longrightarrow> snd (deleteComment e st hdr j) = st) \<and>
      (trim tx \<noteq> [] \<longrightarrow>
         forbidden (updateComment e st hdr j (Some tx) now) =
           (\<not> spec_canModify (user_id user) (role user) (userID c)) \<and>
         (forbidden (updateComment e st hdr j (Some tx) now) \<longrightarrow>
            snd (updateComment e st hdr j (Some tx) now) = st))) \<and>
   (auth e st hdr = Inr user \<and> (cm = None \<or> (\<exists>t. cm = Some t \<and> trim t = [])) \<longrightarrow>
      updateComment e st hdr j cm now =
        (Inl (Failure 400 ''Comment content is required'' None), st)) \<and>
   spec_canModify actor r owner = (r = ''Admin'' \<or> actor = owner)"
proof -
  have blank: "auth e st hdr = Inr user \<and> (cm = None \<or> (\<exists>t. cm = Some t \<and> trim t = [])) \<longrightarrow>
      updateComment e st hdr j cm now =
        (Inl (Failure 400 ''Comment content is required'' None), st)"
    using updateComment_blank by blast
  have cm: "spec_canModify actor r owner = (r = ''Admin'' \<or> actor = owner)"
    by (simp add: spec_canModify_def)
  show ?thesis
    using blank cm
    by (simp add: updatePost_forbidden deletePost_forbidden deleteComment_forbidden
        updateComment_forbidden forbidden_store)
qed

text \<open>Dave is an Editor and owns neither Bob's post nor Carol's comment. His four
  requests are answered 403; his update of the comment with a text of one no-break
  space and one space is answered 400.\<close>

theorem ownership_gate_witness:
  "auth env0 st0 (Some ''Bearer tok-dave'') = Inr (dave\<lparr>password := None\<rparr>) \<and>
   Post_findById env0 st0 post1_id = Inr (Some post1) \<and>
   Comment_findById env0 st0 comment1_id = Inr (Some comment1) \<and>
   trim ''edited'' \<noteq> [] \<and>
   trim [CHR 0xA0, CHR '' ''] = [] \<and>
   \<not> spec_canModify dave_id ''Editor'' (author post1) \<and>
   \<not> spec_canModify dave_id ''Editor'' (userID comment1) \<and>
   forbidden (updatePost env0 st0 (Some ''Bearer tok-dave'') post1_id
      \<lparr>b_title = Some ''Mine now'', b_body = None, b_tags = None, b_category = None\<rparr> 300) \<and>
   forbidden (deletePost env0 st0 (Some ''Bearer tok-dave'') post1_id) \<and>
   forbidden (deleteComment env0 st0 (Some ''Bearer tok-dave'') comment1_id) \<and>
   forbidden (updateComment env0 st0 (Some ''Bearer tok-dave'') comment1_id (Some ''edited'') 300) \<and>
   updateComment env0 st0 (Some ''Bearer tok-dave'') comment1_id (Some [CHR 0xA0, CHR '' '']) 300 =
     (Inl (Failure 400 ''Comment content is required'' None), st0)"
proof -
  have a: "auth env0 st0 (Some ''Bearer tok-dave'') = Inr (dave\<lparr>password := None\<rparr>)"
    by (simp add: auth_def find_defs example_defs)
  have p: "Post_findById env0 st0 post1_id = Inr (Some post1)"
    by (simp add: find_defs example_defs)
  have c: "Comment_findById env0 st0 comment1_id = Inr (Some comment1)"
    by (simp add: find_defs example_defs)
  have t: "trim ''edited'' \<noteq> []" "trim [CHR 0xA0, CHR '' ''] = []"
    by (simp_all add: trim_def is_ws_def)
  have m: "\<not> spec_canModify dave_id ''Editor'' (author post1)"
    "\<not> spec_canModify dave_id ''Editor'' (userID comment1)"
    by (simp_all add: spec_canModify_def example_defs)
  have d: "user_id (dave\<lparr>password := None\<rparr>) = dave_id"
    "role (dave\<lparr>password := None\<rparr>) = ''Editor''"
    by (simp_all add: dave_def)
  from ownership_gate [where e = env0 and st = st0 and hdr = "Some ''Bearer tok-dave''"
      and user = "dave\<lparr>password := None\<rparr>" and i = post1_id and post = post1
      and j = comment1_id and c = comment1 and tx = "''edited''" and now = "300"
      and cm = "Some [CHR 0xA0, CHR '' '']"] a p c t m d
  show ?thesis by simp
qed

text \<open>C1 as stated fails for the update of a comment: Dave, an Editor who does not own
  Carol's comment, sends an empty text and is answered 400, not 403.\<close>

theorem ownership_gate_counterexample:
  "auth env0 st0 (Some ''Bearer tok-dave'') = Inr (dave\<lparr>password := None\<rparr>) \<and>
   role dave = ''Editor'' \<and>
   Comment_findById env0 st0 comment1_id = Inr (Some comment1) \<and>
   userID comment1 = carol_id \<and> user_id dave = dave_id \<and> carol_id \<noteq> dave_id \<and>
   updateComment env0 st0 (Some ''Bearer tok-dave'') comment1_id (Some '''') 300 =
     (Inl (Failure 400 ''Comment content is required'' None), st0)"
  by (simp add: updateComment_def auth_def find_defs example_defs)

section \<open>A comment on a post that does not exist\<close>




section \<open>Reading one post: the view counter\<close>

lemma find_update_first:
  "find P xs = Some x \<Longrightarrow> P (f x) \<Longrightarrow> find P (update_first P f xs) = Some (f x)"
  by (induction xs) (auto split: if_splits)

lemma length_update_first: "length (update_first P f xs) = length xs"
  by (induction xs) auto

lemma list_all2_update_first:
  "(\<And>x. R x x) \<Longrightarrow> (\<And>x. P x \<Longrightarrow> R x (f x)) \<Longrightarrow> list_all2 R xs (update_first P f xs)"
  by (induction xs) (auto simp: list_all2_refl)

lemma find_key: "find P xs = Some x \<Longrightarrow> P x"
  by (induction xs) (auto split: if_splits)

lemma inc_views_store:
  assumes "castObjectId e i = Some k" and "find (\<lambda>q. post_id q = k) (posts st) = Some p"
  shows "Post_findByIdAndUpdate e st i [Inc_views 1] False False now =
           (Inr (Some p),
            st\<lparr>posts := update_first (\<lambda>q. post_id q = k)
                           (\<lambda>q. q\<lparr>views := views q + 1, updatedAt := now\<rparr>) (posts st)\<rparr>)"
  using assms by (simp add: Post_findByIdAndUpdate_def)

lemma inc_views_find:
  assumes "castObjectId e i = Some k" and "find (\<lambda>q. post_id q = k) (posts st) = Some p"
  shows "find (\<lambda>q. post_id q = k)
           (posts (snd (Post_findByIdAndUpdate e st i [Inc_views 1] False False now))) =
         Some (p\<lparr>views := views p + 1, updatedAt := now\<rparr>)"
proof -
  from assms(2) have "post_id p = k" by (auto dest: find_key)
  then show ?thesis
    using assms by (simp add: inc_views_store find_update_first)
qed

lemma getPost_write_store:
  "snd (getPost_write e st i doc a now) =
     snd (Post_findByIdAndUpdate e st i [Inc_views 1] False False now)"
  by (auto simp: getPost_write_def split: prod.splits sum.splits db_error.splits)

lemma getPost_write_reply:
  assumes "castObjectId e i = Some k"
  shows "fst (getPost_write e st i doc a now) = Inr (PostReply 200 None (Some doc) a)"
  using assms
  by (auto simp: getPost_write_def Post_findByIdAndUpdate_def split: option.splits)

lemma getPost_read_found:
  assumes "castObjectId e i = Some k" and "find (\<lambda>q. post_id q = k) (posts st) = Some p"
    and "\<not> populate_fails e (author p)"
  shows "getPost_read e st i = Inr (p, referenced st True (author p))"
  using assms by (simp add: getPost_read_def Post_findById_def populate_def)

lemma getPost_found:
  assumes "castObjectId e i = Some k" and "find (\<lambda>q. post_id q = k) (posts st) = Some p"
    and "\<not> populate_fails e (author p)"
  shows "getPost e st i now =
           (Inr (PostReply 200 None (Some p) (referenced st True (author p))),
            st\<lparr>posts := update_first (\<lambda>q. post_id q = k)
                           (\<lambda>q. q\<lparr>views := views q + 1, updatedAt := now\<rparr>) (posts st)\<rparr>)"
  using assms
  by (simp add: getPost_def getPost_read_found getPost_write_def inc_views_store)

text \<open>
  C3. Let the identifier be the key of a stored post whose author can be populated.
  The fetch succeeds, and it leaves that post in the store with its view counter one
  higher than before. The increment is one operation of the store: whatever document
  the handler has read, and whatever the store holds by the time of the second step,
  the store after the second step is the result of \<^verbatim>\<open>findByIdAndUpdate\<close> with the update
  \<^verbatim>\<open>{$inc: {views: 1}}\<close>, which adds one to the counter it finds there. So a value read
  earlier is never written back: when two fetches have both read the post before
  either writes, the counter is still two higher after both.
\<close>

theorem view_increment:
  assumes "castObjectId e i = Some k"
    and "find (\<lambda>q. post_id q = k) (posts st) = Some p"
    and "\<not> populate_fails e (author p)"
  shows "getPost e st i now =
           (Inr (PostReply 200 None (Some p) (referenced st True (author p))),
            st\<lparr>posts := update_first (\<lambda>q. post_id q = k)
                           (\<lambda>q. q\<lparr>views := views q + 1, updatedAt := now\<rparr>) (posts st)\<rparr>) \<and>
         find (\<lambda>q. post_id q = k) (posts (snd (getPost e st i now))) =
           Some (p\<lparr>views := views p + 1, updatedAt := now\<rparr>) \<and>
         (\<forall>st2 doc a. snd (getPost_write e st2 i doc a now) =
            snd (Post_findByIdAndUpdate e st2 i [Inc_views 1] False False now)) \<and>
         (\<forall>st2 q doc a. find (\<lambda>q. post_id q = k) (posts st2) = Some q \<longrightarrow>
            find (\<lambda>q. post_id q = k) (posts (snd (getPost_write e st2 i doc a now))) =
              Some (q\<lparr>views := views q + 1, updatedAt := now\<rparr>)) \<and>
         (\<forall>doc1 a1 doc2 a2 now2.
            map_option views
              (find (\<lambda>q. post_id q = k)
                 (posts (snd (getPost_write e (snd (getPost_write e st i doc1 a1 now)) i
                    doc2 a2 now2)))) = Some (views p + 2))"
proof -
  note g = getPost_found [OF assms, of now]
  have w: "find (\<lambda>q. post_id q = k) (posts (snd (getPost_write e st2 i doc a t))) =
      Some (q\<lparr>views := views q + 1, updatedAt := t\<rparr>)"
    if "find (\<lambda>q. post_id q = k) (posts st2) = Some q" for st2 q doc a t
    unfolding getPost_write_store by (rule inc_views_find [OF assms(1) that])
  have f: "find (\<lambda>q. post_id q = k) (posts (snd (getPost e st i now))) =
      Some (p\<lparr>views := views p + 1, updatedAt := now\<rparr>)"
  proof -
    from assms(2) have "post_id p = k" by (auto dest: find_key)
    then show ?thesis using assms(2) by (simp add: g find_update_first)
  qed
  have two: "map_option views
      (find (\<lambda>q. post_id q = k)
         (posts (snd (getPost_write e (snd (getPost_write e st i doc1 a1 now)) i doc2 a2 now2)))) =
      Some (views p + 2)" for doc1 a1 doc2 a2 now2
    using w [OF w [OF assms(2), of doc1 a1 now], of doc2 a2 now2] by simp
  from g f w two show ?thesis
    by (simp add: getPost_write_store)
qed

text \<open>Bob's post has been viewed 7 times; after one fetch the store holds 8, and after
  the second steps of two fetches that had both read 7 it holds 9.\<close>

theorem view_increment_witness:
  "castObjectId env0 post1_id = Some post1_id \<and>
   find (\<lambda>q. post_id q = post1_id) (posts st0) = Some post1 \<and>
   \<not> populate_fails env0 (author post1) \<and>
   views post1 = 7 \<and>
   getPost env0 st0 post1_id 500 =
     (Inr (PostReply 200 None (Some post1)
             (Some \<lparr>a_id = bob_id, a_username = ''bob'', a_email = Some ''bob@test.com'',
                    a_role = Some ''Editor''\<rparr>)),
      st0\<lparr>posts := [post1\<lparr>views := 8, updatedAt := 500\<rparr>]\<rparr>) \<and>
   map_option views
     (find (\<lambda>q. post_id q = post1_id)
        (posts (snd (getPost_write env0 (snd (getPost_write env0 st0 post1_id post1 None 500))
           post1_id post1 None 501)))) = Some 9"
proof -
  have k: "castObjectId env0 post1_id = Some post1_id"
    by (simp add: example_defs)
  have p: "find (\<lambda>q. post_id q = post1_id) (posts st0) = Some post1"
    by (simp add: example_defs)
  have n: "\<not> populate_fails env0 (author post1)"
    by (simp add: env0_def)
  have v: "views post1 = 7"
    by (simp add: post1_def)
  have r: "referenced st0 True (author post1) =
      Some \<lparr>a_id = bob_id, a_username = ''bob'', a_email = Some ''bob@test.com'',
            a_role = Some ''Editor''\<rparr>"
    by (simp add: referenced_def example_defs)
  have u: "st0\<lparr>posts := update_first (\<lambda>q. post_id q = post1_id)
      (\<lambda>q. q\<lparr>views := views q + 1, updatedAt := 500\<rparr>) (posts st0)\<rparr> =
      st0\<lparr>posts := [post1\<lparr>views := 8, updatedAt := 500\<rparr>]\<rparr>"
    by (simp add: example_defs)
  note vi = view_increment [OF k p n, of 500]
  from vi have g: "getPost env0 st0 post1_id 500 =
     (Inr (PostReply 200 None (Some post1)
             (Some \<lparr>a_id = bob_id, a_username = ''bob'', a_email = Some ''bob@test.com'',
                    a_role = Some ''Editor''\<rparr>)),
      st0\<lparr>posts := [post1\<lparr>views := 8, updatedAt := 500\<rparr>]\<rparr>)"
    by (simp only: r u)
  from vi have "map_option views
     (find (\<lambda>q. post_id q = post1_id)
        (posts (snd (getPost_write env0 (snd (getPost_write env0 st0 post1_id post1 None 500))
           post1_id post1 None 501)))) = Some (views post1 + 2)"
    by blast
  then have t: "map_option views
     (find (\<lambda>q. post_id q = post1_id)
        (posts (snd (getPost_write env0 (snd (getPost_write env0 st0 post1_id post1 None 500))
           post1_id post1 None 501)))) = Some 9"
    by (simp only: v) simp
  from k p n v g t show ?thesis by (simp only: simp_thms)
qed

text \<open>
  C10. Let the identifier be the key of a stored post whose author can be populated.
  The fetch succeeds and the post it sends is the document as it was stored before the
  request: its \<^verbatim>\<open>views\<close> field is the count prior to the request, while the store
  holds that count plus one afterwards. More generally the second step of the handler
  sends the document that the first step has read, whatever the store holds by then.
\<close>

theorem reply_views:
  assumes "castObjectId e i = Some k"
    and "find (\<lambda>q. post_id q = k) (posts st) = Some p"
    and "\<not> populate_fails e (author p)"
  shows "fst (getPost e st i now) =
           Inr (PostReply 200 None (Some p) (referenced st True (author p))) \<and>
         map_option views (r_post (PostReply 200 None (Some p) (referenced st True (author p)))) =
           Some (views p) \<and>
         map_option views (find (\<lambda>q. post_id q = k) (posts (snd (getPost e st i now)))) =
           Some (views p + 1) \<and>
         getPost_read e st i = Inr (p, referenced st True (author p)) \<and>
         (\<forall>st2 doc a. fst (getPost_write e st2 i doc a now) =
            Inr (PostReply 200 None (Some doc) a))"
proof -
  note g = getPost_found [OF assms, of now]
  from assms(2) have "post_id p = k" by (auto dest: find_key)
  then have "find (\<lambda>q. post_id q = k) (posts (snd (getPost e st i now))) =
      Some (p\<lparr>views := views p + 1, updatedAt := now\<rparr>)"
    using assms(2) by (simp add: g find_update_first)
  then show ?thesis
    using g getPost_read_found [OF assms] getPost_write_reply [OF assms(1)] by simp
qed

text \<open>The fetch of Bob's post sends 7 views and leaves 8 in the store.\<close>

theorem reply_views_witness:
  "castObjectId env0 post1_id = Some post1_id \<and>
   find (\<lambda>q. post_id q = post1_id) (posts st0) = Some post1 \<and>
   \<not> populate_fails env0 (author post1) \<and>
   fst (getPost env0 st0 post1_id 500) =
     Inr (PostReply 200 None (Some post1)
            (Some \<lparr>a_id = bob_id, a_username = ''bob'', a_email = Some ''bob@test.com'',
                   a_role = Some ''Editor''\<rparr>)) \<and>
   views post1 = 7 \<and>
   map_option views (find (\<lambda>q. post_id q = post1_id) (posts (snd (getPost env0 st0 post1_id 500)))) =
     Some 8"
proof -
  have k: "castObjectId env0 post1_id = Some post1_id"
    by (simp add: example_defs)
  have p: "find (\<lambda>q. post_id q = post1_id) (posts st0) = Some post1"
    by (simp add: example_defs)
  have n: "\<not> populate_fails env0 (author post1)"
    by (simp add: env0_def)
  have v: "views post1 = 7"
    by (simp add: post1_def)
  have r: "referenced st0 True (author post1) =
      Some \<lparr>a_id = bob_id, a_username = ''bob'', a_email = Some ''bob@test.com'',
            a_role = Some ''Editor''\<rparr>"
    by (simp add: referenced_def example_defs)
  from reply_views [OF k p n, of 500] k p n v show ?thesis
    by (simp add: r)
qed

section \<open>Updating a post\<close>

lemma fold_update_doc:
  "fold apply_op (map cast_op (update_doc b)) p =
     p\<lparr>title := (case b_title b of None \<Rightarrow> title p | Some t \<Rightarrow> trim t),
       body := (case b_body b of None \<Rightarrow> body p | Some x \<Rightarrow> x),
       tags := (case b_tags b of None \<Rightarrow> tags p | Some ts \<Rightarrow> map trim ts),
       category := (case b_category b of None \<Rightarrow> category p | Some c \<Rightarrow> c)\<rparr>"
  by (simp add: update_doc_def split: option.splits)

lemma validate_tags_aux:
  "map snd (concat (map validate_tag (enumerate n ts))) =
     map (\<lambda>t. ''Tag cannot exceed 50 characters'') (filter (\<lambda>t. length t > 50) ts)"
  by (induction ts arbitrary: n) (auto simp: validate_tag_def)

lemma validate_tags_messages:
  "map snd (validate_tags ts) =
     map (\<lambda>t. ''Tag cannot exceed 50 characters'') (filter (\<lambda>t. length t > 50) ts)"
  by (simp add: validate_tags_def validate_tags_aux)

lemma update_doc_errors:
  "map snd (concat (map validate_op (map cast_op (update_doc b)))) =
     (case b_title b of None \<Rightarrow> [] | Some t \<Rightarrow> map snd (validate_title (Some (trim t)))) @
     (case b_body b of None \<Rightarrow> [] | Some x \<Rightarrow> map snd (validate_body (Some x))) @
     map (\<lambda>t. ''Tag cannot exceed 50 characters'') (long_tags b) @
     (case b_category b of None \<Rightarrow> [] | Some c \<Rightarrow> map snd (validate_category c))"
  by (simp add: update_doc_def long_tags_def validate_tags_messages split: option.splits)

lemma update_doc_no_errors:
  "(concat (map validate_op (map cast_op (update_doc b))) = []) =
     (\<not> title_violated b \<and> \<not> body_violated b \<and> long_tags b = [] \<and> \<not> category_violated b)"
proof -
  have "(concat (map validate_op (map cast_op (update_doc b))) = []) =
          (map snd (concat (map validate_op (map cast_op (update_doc b)))) = [])"
    by simp
  also have "\<dots> = (\<not> title_violated b \<and> \<not> body_violated b \<and> long_tags b = [] \<and>
                    \<not> category_violated b)"
    unfolding update_doc_errors
    by (auto simp: title_violated_def body_violated_def category_violated_def
        validate_title_def validate_body_def validate_category_def split: option.splits)
  finally show ?thesis .
qed

lemma Post_findByIdAndUpdate_invalid:
  assumes "castObjectId e i = Some k"
    and "concat (map validate_op (map cast_op ops)) = errs" and "errs \<noteq> []"
  shows "Post_findByIdAndUpdate e st i ops rn True now =
           (Inl (ValidationError (mset (map snd errs))), st)"
  using assms by (auto simp: Post_findByIdAndUpdate_def Let_def)

lemma Post_findByIdAndUpdate_valid:
  assumes "castObjectId e i = Some k"
    and "concat (map validate_op (map cast_op ops)) = []"
    and "find (\<lambda>q. post_id q = k) (posts st) = Some p"
  shows "Post_findByIdAndUpdate e st i ops True True now =
           (Inr (Some ((fold apply_op (map cast_op ops) p)\<lparr>updatedAt := now\<rparr>)),
            st\<lparr>posts := update_first (\<lambda>q. post_id q = k)
                (\<lambda>q. (fold apply_op (map cast_op ops) q)\<lparr>updatedAt := now\<rparr>) (posts st)\<rparr>)"
  using assms by (auto simp: Post_findByIdAndUpdate_def Let_def)

lemma Post_findByIdAndUpdate_frame:
  assumes "Post_findByIdAndUpdate e st i (update_doc b) rn rv now = (res, st')"
  shows "users st' = users st \<and> comments st' = comments st \<and>
    list_all2 (\<lambda>p q. post_id q = post_id p \<and> author q = author p \<and> views q = views p \<and>
        createdAt q = createdAt p \<and>
        (b_title b = None \<longrightarrow> title q = title p) \<and>
        (b_body b = None \<longrightarrow> body q = body p) \<and>
        (b_tags b = None \<longrightarrow> tags q = tags p) \<and>
        (b_category b = None \<longrightarrow> category q = category p)) (posts st) (posts st')"
  using assms
  by (auto simp: Post_findByIdAndUpdate_def Let_def fold_update_doc list_all2_refl
      intro!: list_all2_update_first
      split: option.splits if_splits)

lemma updatePost_frame:
  assumes "updatePost e st hdr i b now = (res, st')"
  shows "users st' = users st \<and> comments st' = comments st \<and>
    list_all2 (\<lambda>p q. post_id q = post_id p \<and> author q = author p \<and> views q = views p \<and>
        createdAt q = createdAt p \<and>
        (b_title b = None \<longrightarrow> title q = title p) \<and>
        (b_body b = None \<longrightarrow> body q = body p) \<and>
        (b_tags b = None \<longrightarrow> tags q = tags p) \<and>
        (b_category b = None \<longrightarrow> category q = category p)) (posts st) (posts st')"
proof (cases "\<exists>r. Post_findByIdAndUpdate e st i (update_doc b) True True now = (r, st')")
  case True
  then show ?thesis using Post_findByIdAndUpdate_frame by blast
next
  case False
  with assms have "st' = st"
    by (auto simp: updatePost_def
        split: sum.splits option.splits if_splits prod.splits db_error.splits)
  then show ?thesis by (simp add: list_all2_refl)
qed

lemma updatePost_steps:
  assumes "updatePost e st hdr i b now = (Inr r, st')"
  shows "\<exists>p u. Post_findById e st i = Inr (Some p) \<and>
           Post_findByIdAndUpdate e st i (update_doc b) True True now = (Inr u, st') \<and>
           r_post r = u"
  using assms
  by (auto simp: updatePost_def
      split: sum.splits option.splits if_splits prod.splits db_error.splits)

lemma updatePost_success:
  assumes "updatePost e st hdr i b now = (Inr r, st')"
  shows "\<exists>k p. castObjectId e i = Some k \<and> find (\<lambda>q. post_id q = k) (posts st) = Some p \<and>
     r_post r =
       Some (p\<lparr>title := (case b_title b of None \<Rightarrow> title p | Some t \<Rightarrow> trim t),
               body := (case b_body b of None \<Rightarrow> body p | Some x \<Rightarrow> x),
               tags := (case b_tags b of None \<Rightarrow> tags p | Some ts \<Rightarrow> map trim ts),
               category := (case b_category b of None \<Rightarrow> category p | Some c \<Rightarrow> c),
               updatedAt := now\<rparr>) \<and>
     find (\<lambda>q. post_id q = k) (posts st') = r_post r"
proof -
  from updatePost_steps [OF assms] obtain p u where
    f: "Post_findById e st i = Inr (Some p)"
    and u: "Post_findByIdAndUpdate e st i (update_doc b) True True now = (Inr u, st')"
    and r: "r_post r = u"
    by blast
  from f obtain k where k: "castObjectId e i = Some k"
    and p: "find (\<lambda>q. post_id q = k) (posts st) = Some p"
    by (auto simp: Post_findById_def split: option.splits)
  have ne: "concat (map validate_op (map cast_op (update_doc b))) = []"
  proof (rule ccontr)
    assume "concat (map validate_op (map cast_op (update_doc b))) \<noteq> []"
    from Post_findByIdAndUpdate_invalid [OF k refl this, of st True now] u
    show False by simp
  qed
  from p have pk: "post_id p = k" by (auto dest: find_key)
  let ?upd = "\<lambda>q. (fold apply_op (map cast_op (update_doc b)) q)\<lparr>updatedAt := now\<rparr>"
  from Post_findByIdAndUpdate_valid [OF k ne p, of now] u
  have u': "u = Some (?upd p)"
    and st': "st' = st\<lparr>posts := update_first (\<lambda>q. post_id q = k) ?upd (posts st)\<rparr>"
    by simp_all
  have "post_id (?upd p) = k" using pk by (simp add: fold_update_doc)
  with p have "find (\<lambda>q. post_id q = k) (update_first (\<lambda>q. post_id q = k) ?upd (posts st)) =
      Some (?upd p)"
    by (intro find_update_first)
  with k p r u' st' show ?thesis
    by (simp add: fold_update_doc)
qed

lemma updatePost_succeeds:
  assumes "auth e st hdr = Inr user" and "spec_canAuthor (role user)"
    and "castObjectId e i = Some k" and "find (\<lambda>q. post_id q = k) (posts st) = Some p"
    and "spec_canModify (user_id user) (role user) (author p)"
    and "\<not> title_violated b" and "\<not> body_violated b" and "long_tags b = []"
    and "\<not> category_violated b" and "\<not> populate_fails e (author p)"
  shows "updatePost e st hdr i b now =
     (Inr (PostReply 200 (Some ''Post updated successfully'')
        (Some ((fold apply_op (map cast_op (update_doc b)) p)\<lparr>updatedAt := now\<rparr>))
        (referenced st False (author p))),
      st\<lparr>posts := update_first (\<lambda>q. post_id q = k)
          (\<lambda>q. (fold apply_op (map cast_op (update_doc b)) q)\<lparr>updatedAt := now\<rparr>) (posts st)\<rparr>)"
proof -
  from assms(6-9) have ne: "concat (map validate_op (map cast_op (update_doc b))) = []"
    using update_doc_no_errors [of b] by blast
  note u = Post_findByIdAndUpdate_valid [OF assms(3) ne assms(4), of now]
  have a: "author ((fold apply_op (map cast_op (update_doc b)) p)\<lparr>updatedAt := now\<rparr>) = author p"
    by (simp add: fold_update_doc)
  from assms(2,5) have g: "editorAuth user = Inr ()"
    "\<not> (author p \<noteq> user_id user \<and> role user \<noteq> ''Admin'')"
    by (auto simp: editorAuth_def spec_canAuthor_def spec_canModify_def)
  have f: "Post_findById e st i = Inr (Some p)"
    using assms(3,4) by (simp add: Post_findById_def)
  have pop: "populate e
      (st\<lparr>posts := update_first (\<lambda>q. post_id q = k)
          (\<lambda>q. (fold apply_op (map cast_op (update_doc b)) q)\<lparr>updatedAt := now\<rparr>) (posts st)\<rparr>)
      False (author p) = Inr (referenced st False (author p))"
    using assms(10) by (simp add: populate_def referenced_def)
  show ?thesis
    unfolding updatePost_def
    using assms(1) g f
    by (simp add: u a pop del: fold_simps)
qed

text \<open>
  C7. Whatever the outcome of an update request, the users and the comments are as
  before, and the posts after it correspond one to one, in order, to the posts before
  it: each keeps its key, its author, its view counter and its creation time, and
  each of title, body, tags and category that the request omits. When the update
  succeeds, the post sent back, which is the post now stored, is the old post with
  exactly the supplied fields among title, body, tags and category replaced (title and
  tags trimmed) and the update time set. And the update does succeed, with that
  result, when the sender is authenticated, may author and may modify the post, the
  post exists, the supplied fields violate no constraint and the author can be
  populated.
\<close>

theorem update_frame:
  "(updatePost e st hdr i b now = (res, st') \<longrightarrow>
      users st' = users st \<and> comments st' = comments st \<and>
      list_all2 (\<lambda>p q. post_id q = post_id p \<and> author q = author p \<and> views q = views p \<and>
          createdAt q = createdAt p \<and>
          (b_title b = None \<longrightarrow> title q = title p) \<and>
          (b_body b = None \<longrightarrow> body q = body p) \<and>
          (b_tags b = None \<longrightarrow> tags q = tags p) \<and>
          (b_category b = None \<longrightarrow> category q = category p)) (posts st) (posts st') \<and>
      (\<forall>r. res = Inr r \<longrightarrow>
         (\<exists>k p. castObjectId e i = Some k \<and> find (\<lambda>q. post_id q = k) (posts st) = Some p \<and>
            r_post r =
              Some (p\<lparr>title := (case b_title b of None \<Rightarrow> title p | Some t \<Rightarrow> trim t),
                      body := (case b_body b of None \<Rightarrow> body p | Some x \<Rightarrow> x),
                      tags := (case b_tags b of None \<Rightarrow> tags p | Some ts \<Rightarrow> map trim ts),
                      category := (case b_category b of None \<Rightarrow> category p | Some c \<Rightarrow> c),
                      updatedAt := now\<rparr>) \<and>
            find (\<lambda>q. post_id q = k) (posts st') = r_post r))) \<and>
   (auth e st hdr = Inr user \<and> spec_canAuthor (role user) \<and>
    castObjectId e i = Some k \<and> find (\<lambda>q. post_id q = k) (posts st) = Some p \<and>
    spec_canModify (user_id user) (role user) (author p) \<and>
    \<not> title_violated b \<and> \<not> body_violated b \<and> long_tags b = [] \<and> \<not> category_violated b \<and>
    \<not> populate_fails e (author p) \<longrightarrow>
      fst (updatePost e st hdr i b now) =
        Inr (PostReply 200 (Some ''Post updated successfully'')
          (Some (p\<lparr>title := (case b_title b of None \<Rightarrow> title p | Some t \<Rightarrow> trim t),
                  body := (case b_body b of None \<Rightarrow> body p | Some x \<Rightarrow> x),
                  tags := (case b_tags b of None \<Rightarrow> tags p | Some ts \<Rightarrow> map trim ts),
                  category := (case b_category b of None \<Rightarrow> category p | Some c \<Rightarrow> c),
                  updatedAt := now\<rparr>))
          (referenced st False (author p))))"
proof (intro conjI impI)
  assume a: "updatePost e st hdr i b now = (res, st')"
  from updatePost_frame [OF a]
  show "users st' = users st" "comments st' = comments st"
    "list_all2 (\<lambda>p q. post_id q = post_id p \<and> author q = author p \<and> views q = views p \<and>
          createdAt q = createdAt p \<and>
          (b_title b = None \<longrightarrow> title q = title p) \<and>
          (b_body b = None \<longrightarrow> body q = body p) \<and>
          (b_tags b = None \<longrightarrow> tags q = tags p) \<and>
          (b_category b = None \<longrightarrow> category q = category p)) (posts st) (posts st')"
    by simp_all
  show "\<forall>r. res = Inr r \<longrightarrow>
         (\<exists>k p. castObjectId e i = Some k \<and> find (\<lambda>q. post_id q = k) (posts st) = Some p \<and>
            r_post r =
              Some (p\<lparr>title := (case b_title b of None \<Rightarrow> title p | Some t \<Rightarrow> trim t),
                      body := (case b_body b of None \<Rightarrow> body p | Some x \<Rightarrow> x),
                      tags := (case b_tags b of None \<Rightarrow> tags p | Some ts \<Rightarrow> map trim ts),
                      category := (case b_category b of None \<Rightarrow> category p | Some c \<Rightarrow> c),
                      updatedAt := now\<rparr>) \<and>
            find (\<lambda>q. post_id q = k) (posts st') = r_post r)"
    using a updatePost_success by blast
next
  assume h: "auth e st hdr = Inr user \<and> spec_canAuthor (role user) \<and>
    castObjectId e i = Some k \<and> find (\<lambda>q. post_id q = k) (posts st) = Some p \<and>
    spec_canModify (user_id user) (role user) (author p) \<and>
    \<not> title_violated b \<and> \<not> body_violated b \<and> long_tags b = [] \<and> \<not> category_violated b \<and>
    \<not> populate_fails e (author p)"
  then have "updatePost e st hdr i b now =
     (Inr (PostReply 200 (Some ''Post updated successfully'')
        (Some ((fold apply_op (map cast_op (update_doc b)) p)\<lparr>updatedAt := now\<rparr>))
        (referenced st False (author p))),
      st\<lparr>posts := update_first (\<lambda>q. post_id q = k)
          (\<lambda>q. (fold apply_op (map cast_op (update_doc b)) q)\<lparr>updatedAt := now\<rparr>) (posts st)\<rparr>)"
    apply (elim conjE)
    apply (rule updatePost_succeeds; assumption)
    done
  then show "fst (updatePost e st hdr i b now) =
        Inr (PostReply 200 (Some ''Post updated successfully'')
          (Some (p\<lparr>title := (case b_title b of None \<Rightarrow> title p | Some t \<Rightarrow> trim t),
                  body := (case b_body b of None \<Rightarrow> body p | Some x \<Rightarrow> x),
                  tags := (case b_tags b of None \<Rightarrow> tags p | Some ts \<Rightarrow> map trim ts),
                  category := (case b_category b of None \<Rightarrow> category p | Some c \<Rightarrow> c),
                  updatedAt := now\<rparr>))
          (referenced st False (author p)))"
    by (simp add: fold_update_doc)
qed

lemma updatePost_example:
  "updatePost env0 st0 (Some ''Bearer tok-bob'') post1_id
       \<lparr>b_title = Some (CHR 0xA0 # '' Hello again ''), b_body = None, b_tags = None,
        b_category = None\<rparr> 600 =
     (Inr (PostReply 200 (Some ''Post updated successfully'')
             (Some (post1\<lparr>title := ''Hello again'', updatedAt := 600\<rparr>))
             (Some \<lparr>a_id = bob_id, a_username = ''bob'', a_email = None, a_role = None\<rparr>)),
      st0\<lparr>posts := [post1\<lparr>title := ''Hello again'', updatedAt := 600\<rparr>]\<rparr>)"
  by (simp add: updatePost_def auth_def editorAuth_def Post_findByIdAndUpdate_def update_doc_def
      validate_title_def trim_def is_ws_def populate_def referenced_def find_defs example_defs)

text \<open>Bob replaces the title of his post, sent with a no-break space and spaces around
  it, and nothing else.\<close>

theorem update_frame_witness:
  "auth env0 st0 (Some ''Bearer tok-bob'') = Inr (bob\<lparr>password := None\<rparr>) \<and>
   spec_canAuthor ''Editor'' \<and>
   castObjectId env0 post1_id = Some post1_id \<and>
   find (\<lambda>q. post_id q = post1_id) (posts st0) = Some post1 \<and>
   spec_canModify bob_id ''Editor'' (author post1) \<and>
   \<not> populate_fails env0 (author post1) \<and>
   trim (CHR 0xA0 # '' Hello again '') = ''Hello again'' \<and>
   updatePost env0 st0 (Some ''Bearer tok-bob'') post1_id
       \<lparr>b_title = Some (CHR 0xA0 # '' Hello again ''), b_body = None, b_tags = None,
        b_category = None\<rparr> 600 =
     (Inr (PostReply 200 (Some ''Post updated successfully'')
             (Some (post1\<lparr>title := ''Hello again'', updatedAt := 600\<rparr>))
             (Some \<lparr>a_id = bob_id, a_username = ''bob'', a_email = None, a_role = None\<rparr>)),
      st0\<lparr>posts := [post1\<lparr>title := ''Hello again'', updatedAt := 600\<rparr>]\<rparr>) \<and>
   list_all2 (\<lambda>p q. post_id q = post_id p \<and> author q = author p \<and> views q = views p \<and>
        createdAt q = createdAt p \<and> body q = body p \<and> tags q = tags p \<and>
        category q = category p)
     (posts st0) (posts (st0\<lparr>posts := [post1\<lparr>title := ''Hello again'', updatedAt := 600\<rparr>]\<rparr>))"
proof -
  let ?b = "\<lparr>b_title = Some (CHR 0xA0 # '' Hello again ''), b_body = None, b_tags = None,
        b_category = None\<rparr>"
  have a: "auth env0 st0 (Some ''Bearer tok-bob'') = Inr (bob\<lparr>password := None\<rparr>)"
    by (simp add: auth_def find_defs example_defs)
  have ca: "spec_canAuthor ''Editor''"
    by (simp add: spec_canAuthor_def)
  have k: "castObjectId env0 post1_id = Some post1_id"
    by (simp add: example_defs)
  have p: "find (\<lambda>q. post_id q = post1_id) (posts st0) = Some post1"
    by (simp add: example_defs)
  have cm: "spec_canModify bob_id ''Editor'' (author post1)"
    by (simp add: spec_canModify_def post1_def)
  have n: "\<not> populate_fails env0 (author post1)"
    by (simp add: env0_def)
  have t: "trim (CHR 0xA0 # '' Hello again '') = ''Hello again''"
    by (simp add: trim_def is_ws_def)
  have v: "\<not> title_violated ?b" "\<not> body_violated ?b" "long_tags ?b = []"
    "\<not> category_violated ?b"
    by (simp_all add: title_violated_def body_violated_def long_tags_def category_violated_def t)
  have ub: "user_id (bob\<lparr>password := None\<rparr>) = bob_id" "role (bob\<lparr>password := None\<rparr>) = ''Editor''"
    by (simp_all add: bob_def)
  note uf = update_frame [where e = env0 and st = st0 and hdr = "Some ''Bearer tok-bob''"
      and i = post1_id and b = ?b and now = "600" and user = "bob\<lparr>password := None\<rparr>"
      and k = post1_id and p = post1
      and res = "Inr (PostReply 200 (Some ''Post updated successfully'')
             (Some (post1\<lparr>title := ''Hello again'', updatedAt := 600\<rparr>))
             (Some \<lparr>a_id = bob_id, a_username = ''bob'', a_email = None, a_role = None\<rparr>))"
      and st' = "st0\<lparr>posts := [post1\<lparr>title := ''Hello again'', updatedAt := 600\<rparr>]\<rparr>"]
  from uf updatePost_example
  have "list_all2 (\<lambda>p q. post_id q = post_id p \<and> author q = author p \<and> views q = views p \<and>
        createdAt q = createdAt p \<and> body q = body p \<and> tags q = tags p \<and>
        category q = category p)
     (posts st0) (posts (st0\<lparr>posts := [post1\<lparr>title := ''Hello again'', updatedAt := 600\<rparr>]\<rparr>))"
    by simp
  with a ca k p cm n t updatePost_example show ?thesis by simp
qed

lemma updatePost_validation:
  assumes "auth e st hdr = Inr user" and "spec_canAuthor (role user)"
    and "Post_findById e st i = Inr (Some post)"
    and "spec_canModify (user_id user) (role user) (author post)"
    and "title_violated b \<or> body_violated b \<or> long_tags b \<noteq> [] \<or> category_violated b"
  shows "updatePost e st hdr i b now =
           (Inl (Failure 400 ''Validation error''
              (Some (mset (map snd (concat (map validate_op (map cast_op (update_doc b)))))))), st)"
proof -
  from assms(5) have ne: "concat (map validate_op (map cast_op (update_doc b))) \<noteq> []"
    using update_doc_no_errors [of b] by blast
  from assms(3) obtain k where k: "castObjectId e i = Some k"
    by (auto simp: Post_findById_def split: option.splits)
  from k ne have "Post_findByIdAndUpdate e st i (update_doc b) True True now =
      (Inl (ValidationError
        (mset (map snd (concat (map validate_op (map cast_op (update_doc b))))))), st)"
    by (rule Post_findByIdAndUpdate_invalid [OF _ refl])
  with assms(1-4) show ?thesis
    by (auto simp: updatePost_def editorAuth_def spec_canAuthor_def spec_canModify_def)
qed

text \<open>
  C6. Let an update request come from an authenticated sender who may author and may
  modify the post, which exists. When the request violates one or more constraints of
  the fields it supplies, the reply is 400, \<^verbatim>\<open>Validation error\<close>, and its bag of
  messages has exactly one message for each violated field, in whatever order: one
  for the title when the title is violated and none otherwise, likewise for the body
  and the category, and one for each tag that is too long. In particular a title of
  more than 200 characters together with a non-empty body of fewer than 10 characters
  yields both messages.
\<close>

theorem update_reports_every_field:
  assumes "auth e st hdr = Inr user" and "spec_canAuthor (role user)"
    and "Post_findById e st i = Inr (Some post)"
    and "spec_canModify (user_id user) (role user) (author post)"
    and "title_violated b \<or> body_violated b \<or> long_tags b \<noteq> [] \<or> category_violated b"
  shows "\<exists>et eb ets ec.
           updatePost e st hdr i b now =
             (Inl (Failure 400 ''Validation error'' (Some (mset (et @ eb @ ets @ ec)))), st) \<and>
           length et = (if title_violated b then 1 else 0) \<and>
           set et \<subseteq> {''Title is required'', ''Title cannot exceed 200 characters''} \<and>
           length eb = (if body_violated b then 1 else 0) \<and>
           set eb \<subseteq> {''Body content is required'', ''Body must be at least 10 characters long''} \<and>
           ets = map (\<lambda>t. ''Tag cannot exceed 50 characters'') (long_tags b) \<and>
           length ec = (if category_violated b then 1 else 0) \<and>
           (\<forall>m \<in> set ec. \<exists>c. b_category b = Some c \<and>
              m = ''`'' @ c @ ''` is not a valid enum value for path `category`.'') \<and>
           ((\<exists>t. b_title b = Some t \<and> length (trim t) > 200) \<longrightarrow>
              et = [''Title cannot exceed 200 characters'']) \<and>
           ((\<exists>x. b_body b = Some x \<and> x \<noteq> [] \<and> length x < 10) \<longrightarrow>
              eb = [''Body must be at least 10 characters long''])"
proof -
  let ?et = "case b_title b of None \<Rightarrow> [] | Some t \<Rightarrow> map snd (validate_title (Some (trim t)))"
  let ?eb = "case b_body b of None \<Rightarrow> [] | Some x \<Rightarrow> map snd (validate_body (Some x))"
  let ?ets = "map (\<lambda>t. ''Tag cannot exceed 50 characters'') (long_tags b)"
  let ?ec = "case b_category b of None \<Rightarrow> [] | Some c \<Rightarrow> map snd (validate_category c)"
  have r: "updatePost e st hdr i b now =
      (Inl (Failure 400 ''Validation error'' (Some (mset (?et @ ?eb @ ?ets @ ?ec)))), st)"
    using updatePost_validation [OF assms, of now] by (simp only: update_doc_errors)
  have t: "length ?et = (if title_violated b then 1 else 0)"
    "set ?et \<subseteq> {''Title is required'', ''Title cannot exceed 200 characters''}"
    "(\<exists>t. b_title b = Some t \<and> length (trim t) > 200) \<longrightarrow>
       ?et = [''Title cannot exceed 200 characters'']"
    by (auto simp: title_violated_def validate_title_def split: option.splits)
  have bd: "length ?eb = (if body_violated b then 1 else 0)"
    "set ?eb \<subseteq> {''Body content is required'', ''Body must be at least 10 characters long''}"
    "(\<exists>x. b_body b = Some x \<and> x \<noteq> [] \<and> length x < 10) \<longrightarrow>
       ?eb = [''Body must be at least 10 characters long'']"
    by (auto simp: body_violated_def validate_body_def split: option.splits)
  have c: "length ?ec = (if category_violated b then 1 else 0)"
    "\<forall>m \<in> set ?ec. \<exists>c. b_category b = Some c \<and>
        m = ''`'' @ c @ ''` is not a valid enum value for path `category`.''"
    by (auto simp: category_violated_def validate_category_def split: option.splits)
  from r t bd c show ?thesis by blast
qed

text \<open>Bob sends a title of 201 characters, the body \<^verbatim>\<open>short\<close> and the category
  \<^verbatim>\<open>Sports\<close>: three messages. Bob sends a title that is one no-break space and the
  body \<^verbatim>\<open>short\<close>: two messages.\<close>

theorem update_reports_every_field_witness:
  "auth env0 st0 (Some ''Bearer tok-bob'') = Inr (bob\<lparr>password := None\<rparr>) \<and>
   spec_canAuthor ''Editor'' \<and>
   Post_findById env0 st0 post1_id = Inr (Some post1) \<and>
   spec_canModify bob_id ''Editor'' (author post1) \<and>
   title_violated \<lparr>b_title = Some (replicate 201 CHR ''x''), b_body = Some ''short'',
       b_tags = None, b_category = Some ''Sports''\<rparr> \<and>
   body_violated \<lparr>b_title = Some (replicate 201 CHR ''x''), b_body = Some ''short'',
       b_tags = None, b_category = Some ''Sports''\<rparr> \<and>
   updatePost env0 st0 (Some ''Bearer tok-bob'') post1_id
       \<lparr>b_title = Some (replicate 201 CHR ''x''), b_body = Some ''short'',
        b_tags = None, b_category = Some ''Sports''\<rparr> 600 =
     (Inl (Failure 400 ''Validation error''
        (Some {#''Title cannot exceed 200 characters'',
                ''Body must be at least 10 characters long'',
                ''`Sports` is not a valid enum value for path `category`.''#})), st0) \<and>
   title_violated \<lparr>b_title = Some [CHR 0xA0], b_body = Some ''short'', b_tags = None,
       b_category = None\<rparr> \<and>
   updatePost env0 st0 (Some ''Bearer tok-bob'') post1_id
       \<lparr>b_title = Some [CHR 0xA0], b_body = Some ''short'', b_tags = None,
        b_category = None\<rparr> 600 =
     (Inl (Failure 400 ''Validation error''
        (Some {#''Title is required'', ''Body must be at least 10 characters long''#})), st0)"
proof -
  let ?b = "\<lparr>b_title = Some (replicate 201 CHR ''x''), b_body = Some ''short'',
       b_tags = None, b_category = Some ''Sports''\<rparr>"
  let ?b2 = "\<lparr>b_title = Some [CHR 0xA0], b_body = Some ''short'', b_tags = None,
       b_category = None\<rparr>"
  have a: "auth env0 st0 (Some ''Bearer tok-bob'') = Inr (bob\<lparr>password := None\<rparr>)"
    by (simp add: auth_def find_defs example_defs)
  have ca: "spec_canAuthor (role (bob\<lparr>password := None\<rparr>))"
    by (simp add: spec_canAuthor_def bob_def)
  have p: "Post_findById env0 st0 post1_id = Inr (Some post1)"
    by (simp add: find_defs example_defs)
  have cm: "spec_canModify (user_id (bob\<lparr>password := None\<rparr>)) (role (bob\<lparr>password := None\<rparr>))
      (author post1)"
    by (simp add: spec_canModify_def bob_def post1_def)
  have tr: "trim (replicate 201 CHR ''x'') = replicate 201 CHR ''x''"
    by (simp add: trim_def is_ws_def dropWhile_eq_self_iff)
  have tr2: "trim [CHR 0xA0] = []"
    by (simp add: trim_def is_ws_def)
  have tv: "title_violated ?b"
    by (simp add: title_violated_def tr)
  have bv: "body_violated ?b"
    by (simp add: body_violated_def)
  have cv: "category_violated ?b"
    by (simp add: category_violated_def categories_def)
  have lt: "long_tags ?b = []"
    by (simp add: long_tags_def)
  from tv have v: "title_violated ?b \<or> body_violated ?b \<or> long_tags ?b \<noteq> [] \<or> category_violated ?b"
    by simp
  from update_reports_every_field [OF a ca p cm v, of 600] obtain et eb ets ec where
    r: "updatePost env0 st0 (Some ''Bearer tok-bob'') post1_id ?b 600 =
          (Inl (Failure 400 ''Validation error'' (Some (mset (et @ eb @ ets @ ec)))), st0)"
    and et: "et = [''Title cannot exceed 200 characters'']"
    and eb: "eb = [''Body must be at least 10 characters long'']"
    and ets: "ets = []"
    and ec1: "length ec = 1"
    and ec2: "\<forall>m \<in> set ec. m = ''`'' @ ''Sports'' @ ''` is not a valid enum value for path `category`.''"
    using tv bv cv lt tr by auto
  from ec1 ec2 have ec: "ec = [''`Sports` is not a valid enum value for path `category`.'']"
    by (cases ec) auto
  have r1: "updatePost env0 st0 (Some ''Bearer tok-bob'') post1_id ?b 600 =
     (Inl (Failure 400 ''Validation error''
        (Some {#''Title cannot exceed 200 characters'',
                ''Body must be at least 10 characters long'',
                ''`Sports` is not a valid enum value for path `category`.''#})), st0)"
    unfolding r et eb ets ec by simp
  have tv2: "title_violated ?b2"
    by (simp add: title_violated_def tr2)
  have r2: "updatePost env0 st0 (Some ''Bearer tok-bob'') post1_id ?b2 600 =
     (Inl (Failure 400 ''Validation error''
        (Some {#''Title is required'', ''Body must be at least 10 characters long''#})), st0)"
    by (simp add: updatePost_def auth_def editorAuth_def Post_findByIdAndUpdate_def update_doc_def
      validate_title_def validate_body_def trim_def is_ws_def find_defs example_defs)
  from a p r1 r2 tv bv tv2 show ?thesis
    by (simp add: spec_canAuthor_def spec_canModify_def bob_def post1_def)
qed

section \<open>Creating a post and reading it back: the tags\<close>

lemma find_append_new:
  "k \<notin> set (map post_id ps) \<Longrightarrow> post_id d = k \<Longrightarrow>
     find (\<lambda>q. post_id q = k) (ps @ [d]) = Some d"
  by (induction ps) auto

lemma validate_tags_ok:
  assumes "\<forall>tag \<in> set ts. length tag \<le> 50"
  shows "validate_tags ts = []"
proof -
  from assms have "filter (\<lambda>t. length t > 50) ts = []"
    by (auto simp: filter_empty_conv)
  then have "map snd (validate_tags ts) = []"
    by (simp add: validate_tags_messages)
  then show ?thesis by simp
qed

lemma Post_save_valid:
  assumes "trim t \<noteq> []" and "length (trim t) \<le> 200" and "10 \<le> length x"
    and "\<forall>tag \<in> set ts. length (trim tag) \<le> 50" and "cat \<in> set categories"
    and "new_id \<notin> set (map post_id (posts st))"
  shows "Post_save st new_id now (Some t) (Some x) athr ts cat =
           (Inr \<lparr>post_id = new_id, title = trim t, body = x, author = athr, tags = map trim ts,
                  category = cat, views = 0, createdAt = now, updatedAt = now\<rparr>,
            st\<lparr>posts := posts st @
               [\<lparr>post_id = new_id, title = trim t, body = x, author = athr, tags = map trim ts,
                 category = cat, views = 0, createdAt = now, updatedAt = now\<rparr>]\<rparr>)"
proof -
  have vt: "validate_title (Some (trim t)) = []"
    using assms(1,2) by (simp add: validate_title_def)
  have vb: "validate_body (Some x) = []"
    using assms(3) by (auto simp: validate_body_def)
  have vg: "validate_tags (map trim ts) = []"
    using assms(4) by (intro validate_tags_ok) simp
  have vc: "validate_category cat = []"
    using assms(5) by (simp add: validate_category_def)
  show ?thesis
    using assms(6) by (simp add: Post_save_def Let_def vt vb vg vc)
qed

text \<open>
  C9. Let an authenticated sender who may author create a post with a valid title and
  body, a list of tags none of which exceeds 50 characters once trimmed, and no or a
  valid category, under a key that is fresh and in canonical form, and let the author
  be populated. The creation succeeds and stores a post whose tags are the submitted
  tags, each trimmed, in the submitted order and with their duplicates (the list
  \<open>map trim ts\<close>); the reply carries that post; and a fetch of the key that follows
  succeeds and sends the same post, hence the same tags.
\<close>

theorem tags_round_trip:
  assumes "auth e st hdr = Inr user" and "spec_canAuthor (role user)"
    and "b_title b = Some t" and "trim t \<noteq> []" and "length (trim t) \<le> 200"
    and "b_body b = Some x" and "10 \<le> length x"
    and "b_tags b = Some ts" and "\<forall>tag \<in> set ts. length (trim tag) \<le> 50"
    and "b_category b = None \<or> b_category b = Some [] \<or>
         (\<exists>c. b_category b = Some c \<and> c \<in> set categories)"
    and "new_id \<notin> set (map post_id (posts st))" and "castObjectId e new_id = Some new_id"
    and "\<not> populate_fails e (user_id user)"
  shows "\<exists>doc. post_id doc = new_id \<and> tags doc = map trim ts \<and>
           length (tags doc) = length ts \<and>
           createPost e st hdr b new_id now =
             (Inr (PostReply 201 (Some ''Post created successfully'') (Some doc)
                     (referenced st False (user_id user))),
              st\<lparr>posts := posts st @ [doc]\<rparr>) \<and>
           fst (getPost e (st\<lparr>posts := posts st @ [doc]\<rparr>) new_id now') =
             Inr (PostReply 200 None (Some doc) (referenced st True (user_id user)))"
proof -
  define cat where
    "cat = (case b_category b of None \<Rightarrow> ''General'' | Some c \<Rightarrow> if c = [] then ''General'' else c)"
  define doc where
    "doc = \<lparr>post_id = new_id, title = trim t, body = x, author = user_id user,
            tags = map trim ts, category = cat, views = 0, createdAt = now, updatedAt = now\<rparr>"
  have c: "cat \<in> set categories"
    using assms(10) by (auto simp: cat_def categories_def)
  have s: "Post_save st new_id now (Some t) (Some x) (user_id user) ts cat =
      (Inr doc, st\<lparr>posts := posts st @ [doc]\<rparr>)"
    unfolding doc_def by (rule Post_save_valid [OF assms(4,5,7,9) c assms(11)])
  have g: "editorAuth user = Inr ()"
    using assms(2) by (auto simp: editorAuth_def spec_canAuthor_def)
  have ad: "author doc = user_id user" by (simp add: doc_def)
  have pop: "populate e (st\<lparr>posts := posts st @ [doc]\<rparr>) w (user_id user) =
      Inr (referenced st w (user_id user))" for w
    using assms(13) by (simp add: populate_def referenced_def)
  have cr: "createPost e st hdr b new_id now =
      (Inr (PostReply 201 (Some ''Post created successfully'') (Some doc)
              (referenced st False (user_id user))),
       st\<lparr>posts := posts st @ [doc]\<rparr>)"
    unfolding createPost_def
    using assms(1,3,6,8) g
    by (simp add: Let_def cat_def [symmetric] s ad pop)
  have f: "find (\<lambda>q. post_id q = new_id) (posts (st\<lparr>posts := posts st @ [doc]\<rparr>)) = Some doc"
    using assms(11) by (simp add: find_append_new doc_def)
  have n: "\<not> populate_fails e (author doc)"
    using assms(13) by (simp add: ad)
  have "fst (getPost e (st\<lparr>posts := posts st @ [doc]\<rparr>) new_id now') =
      Inr (PostReply 200 None (Some doc)
            (referenced (st\<lparr>posts := posts st @ [doc]\<rparr>) True (author doc)))"
    by (simp add: getPost_found [OF assms(12) f n])
  then have gp: "fst (getPost e (st\<lparr>posts := posts st @ [doc]\<rparr>) new_id now') =
      Inr (PostReply 200 None (Some doc) (referenced st True (user_id user)))"
    by (simp add: ad referenced_def)
  have "post_id doc = new_id" "tags doc = map trim ts" "length (tags doc) = length ts"
    by (simp_all add: doc_def)
  with cr gp show ?thesis by blast
qed

lemma createPost_example:
  "createPost env0 st0 (Some ''Bearer tok-bob'')
       \<lparr>b_title = Some ''Tagged'', b_body = Some ''A body long enough.'',
        b_tags = Some [''a'', '' b'', [CHR ''b'', CHR 0xA0]], b_category = None\<rparr> post2_id 700 =
     (Inr (PostReply 201 (Some ''Post created successfully'')
             (Some \<lparr>post_id = post2_id, title = ''Tagged'', body = ''A body long enough.'',
                    author = bob_id, tags = [''a'', ''b'', ''b''], category = ''General'',
                    views = 0, createdAt = 700, updatedAt = 700\<rparr>)
             (Some \<lparr>a_id = bob_id, a_username = ''bob'', a_email = None, a_role = None\<rparr>)),
      st0\<lparr>posts := [post1, \<lparr>post_id = post2_id, title = ''Tagged'',
                    body = ''A body long enough.'', author = bob_id, tags = [''a'', ''b'', ''b''],
                    category = ''General'', views = 0, createdAt = 700, updatedAt = 700\<rparr>]\<rparr>)"
  by (simp add: createPost_def auth_def editorAuth_def Post_save_def validate_title_def
      validate_body_def validate_tags_def validate_tag_def validate_category_def categories_def
      trim_def is_ws_def populate_def referenced_def find_defs example_defs Let_def)

text \<open>Bob submits the tags \<^verbatim>\<open>a\<close>, \<^verbatim>\<open>b\<close> after a space and \<^verbatim>\<open>b\<close> before a no-break
  space; the creation stores and the fetch returns \<^verbatim>\<open>a, b, b\<close>.\<close>

theorem tags_round_trip_witness:
  "auth env0 st0 (Some ''Bearer tok-bob'') = Inr (bob\<lparr>password := None\<rparr>) \<and>
   spec_canAuthor ''Editor'' \<and>
   post2_id \<notin> set (map post_id (posts st0)) \<and>
   castObjectId env0 post2_id = Some post2_id \<and>
   \<not> populate_fails env0 bob_id \<and>
   map trim [''a'', '' b'', [CHR ''b'', CHR 0xA0]] = [''a'', ''b'', ''b''] \<and>
   createPost env0 st0 (Some ''Bearer tok-bob'')
       \<lparr>b_title = Some ''Tagged'', b_body = Some ''A body long enough.'',
        b_tags = Some [''a'', '' b'', [CHR ''b'', CHR 0xA0]], b_category = None\<rparr> post2_id 700 =
     (Inr (PostReply 201 (Some ''Post created successfully'')
             (Some \<lparr>post_id = post2_id, title = ''Tagged'', body = ''A body long enough.'',
                    author = bob_id, tags = [''a'', ''b'', ''b''], category = ''General'',
                    views = 0, createdAt = 700, updatedAt = 700\<rparr>)
             (Some \<lparr>a_id = bob_id, a_username = ''bob'', a_email = None, a_role = None\<rparr>)),
      st0\<lparr>posts := [post1, \<lparr>post_id = post2_id, title = ''Tagged'',
                    body = ''A body long enough.'', author = bob_id, tags = [''a'', ''b'', ''b''],
                    category = ''General'', views = 0, createdAt = 700, updatedAt = 700\<rparr>]\<rparr>) \<and>
   map_option tags
     (case fst (getPost env0
        (st0\<lparr>posts := [post1, \<lparr>post_id = post2_id, title = ''Tagged'',
                    body = ''A body long enough.'', author = bob_id, tags = [''a'', ''b'', ''b''],
                    category = ''General'', views = 0, createdAt = 700, updatedAt = 700\<rparr>]\<rparr>)
        post2_id 800) of Inl f \<Rightarrow> None | Inr r \<Rightarrow> r_post r) = Some [''a'', ''b'', ''b'']"
proof -
  let ?b = "\<lparr>b_title = Some ''Tagged'', b_body = Some ''A body long enough.'',
        b_tags = Some [''a'', '' b'', [CHR ''b'', CHR 0xA0]], b_category = None\<rparr>"
  let ?doc = "\<lparr>post_id = post2_id, title = ''Tagged'', body = ''A body long enough.'',
                    author = bob_id, tags = [''a'', ''b'', ''b''], category = ''General'',
                    views = 0, createdAt = 700, updatedAt = 700\<rparr>"
  have a: "auth env0 st0 (Some ''Bearer tok-bob'') = Inr (bob\<lparr>password := None\<rparr>)"
    by (simp add: auth_def find_defs example_defs)
  have ca: "spec_canAuthor (role (bob\<lparr>password := None\<rparr>))" "spec_canAuthor ''Editor''"
    by (simp_all add: spec_canAuthor_def bob_def)
  have ub: "user_id (bob\<lparr>password := None\<rparr>) = bob_id"
    by (simp add: bob_def)
  have fr: "post2_id \<notin> set (map post_id (posts st0))"
    by (simp add: example_defs)
  have k: "castObjectId env0 post2_id = Some post2_id"
    by (simp add: example_defs)
  have n: "\<not> populate_fails env0 (user_id (bob\<lparr>password := None\<rparr>))" "\<not> populate_fails env0 bob_id"
    by (simp_all add: env0_def)
  have t: "map trim [''a'', '' b'', [CHR ''b'', CHR 0xA0]] = [''a'', ''b'', ''b'']"
    by (simp add: trim_def is_ws_def)
  have tt: "trim ''Tagged'' \<noteq> []" "length (trim ''Tagged'') \<le> 200"
    by (simp_all add: trim_def is_ws_def)
  have bl: "(10::nat) \<le> length ''A body long enough.''"
    by simp
  have tg: "\<forall>tag \<in> set [''a'', '' b'', [CHR ''b'', CHR 0xA0]]. length (trim tag) \<le> 50"
    by (simp add: trim_def is_ws_def)
  have f: "b_title ?b = Some ''Tagged''" "b_body ?b = Some ''A body long enough.''"
    "b_tags ?b = Some [''a'', '' b'', [CHR ''b'', CHR 0xA0]]"
    "b_category ?b = None \<or> b_category ?b = Some [] \<or>
       (\<exists>c. b_category ?b = Some c \<and> c \<in> set categories)"
    by simp_all
  from tags_round_trip [OF a ca(1) f(1) tt f(2) bl f(3) tg f(4) fr k n(1), of 700 800]
  obtain doc where d: "post_id doc = post2_id" "tags doc = map trim [''a'', '' b'', [CHR ''b'', CHR 0xA0]]"
    and c: "createPost env0 st0 (Some ''Bearer tok-bob'') ?b post2_id 700 =
             (Inr (PostReply 201 (Some ''Post created successfully'') (Some doc)
                     (referenced st0 False (user_id (bob\<lparr>password := None\<rparr>)))),
              st0\<lparr>posts := posts st0 @ [doc]\<rparr>)"
    and g: "fst (getPost env0 (st0\<lparr>posts := posts st0 @ [doc]\<rparr>) post2_id 800) =
             Inr (PostReply 200 None (Some doc)
                   (referenced st0 True (user_id (bob\<lparr>password := None\<rparr>))))"
    by blast
  from c createPost_example have doc: "doc = ?doc" by simp
  have ps: "st0\<lparr>posts := posts st0 @ [?doc]\<rparr> = st0\<lparr>posts := [post1, ?doc]\<rparr>"
    by (simp add: st0_def)
  from g have "map_option tags
     (case fst (getPost env0 (st0\<lparr>posts := [post1, ?doc]\<rparr>) post2_id 800) of
        Inl f \<Rightarrow> None | Inr r \<Rightarrow> r_post r) = Some [''a'', ''b'', ''b'']"
    unfolding doc ps by simp
  with a ca(2) fr k n(2) t createPost_example show ?thesis by simp
qed

end
